theory Spec2Isabelle
  imports
    Complex_Main
    "HOL-Library.Char_ord"
    "HOL-Library.List_Lexorder"
    "HOL-Library.Product_Lexorder"
    "HOL-Library.Multiset"
    "HOL-Library.Sublist"
    "HOL-Library.AList"
begin

section \<open>Data model\<close>

text \<open>
  The program keeps its dataset in a pandas DataFrame. A frame is modelled row-major:
  the ordered column labels, and the rows in order, each an association list from column
  label to cell (what \<^verbatim>\<open>df.to_dict('records')\<close> yields). A cell is a missing
  float (\<open>NaN\<close>), a missing timestamp (\<open>NaT\<close>), a float infinity, a string, a
  number or a timestamp (seconds since the epoch). A number cell holds the exact value of
  an integer or of a finite double. The costs of the Cost Analysis are computed in double
  arithmetic, with its rounding; the rates of the Country Analysis are modelled with the
  special values of a division by zero and with exact finite quotients. A column is read at the first entry of its label: the frames
  that \<^verbatim>\<open>read_csv\<close> produces have pairwise distinct column labels.
\<close>

datatype cell = NaN | NaT | PosInf | NegInf | Str string | Num rat | Timestamp int

type_synonym row = "(string \<times> cell) list"

record dataframe =
  columns :: "string list"
  rows :: "row list"

text \<open>Python exceptions that the modelled functions can raise.\<close>

datatype error =
    KeyError "string list"
  | ValueError string
  | AttributeError string
  | NumberParseException
  | PreventUpdate
  | OtherError string

definition cell_at :: "row \<Rightarrow> string \<Rightarrow> cell" where
  "cell_at r c = (case map_of r c of None \<Rightarrow> NaN | Some v \<Rightarrow> v)"

definition notna :: "cell \<Rightarrow> bool" where
  "notna v = (v \<noteq> NaN \<and> v \<noteq> NaT)"

definition has_column :: "dataframe \<Rightarrow> string \<Rightarrow> bool" where
  "has_column df c = (c \<in> set (columns df))"

text \<open>\<^verbatim>\<open>series.count()\<close>: the number of non-missing cells of a column.\<close>

definition count_col :: "string \<Rightarrow> row list \<Rightarrow> nat" where
  "count_col c rs = length (filter (\<lambda>r. notna (cell_at r c)) rs)"

section \<open>Filter Engine: \<^verbatim>\<open>apply_filters\<close>\<close>

text \<open>\<^verbatim>\<open>series.isin(values)\<close> for a list of strings.\<close>

definition isin :: "cell \<Rightarrow> string list \<Rightarrow> bool" where
  "isin v xs = (case v of Str s \<Rightarrow> s \<in> set xs | _ \<Rightarrow> False)"

text \<open>
  \<^verbatim>\<open>if flt and len(flt) > 0: df = df[df[col].isin(flt)]\<close>. A filter that is
  \<^verbatim>\<open>None\<close> or the empty list is skipped, and the column is only read when the
  filter is applied.
\<close>

definition filter_isin :: "string \<Rightarrow> string list option \<Rightarrow> dataframe \<Rightarrow> error + dataframe" where
  "filter_isin col flt df =
     (case flt of
        None \<Rightarrow> Inr df
      | Some [] \<Rightarrow> Inr df
      | Some vs \<Rightarrow>
          if has_column df col
          then Inr (df\<lparr>rows := filter (\<lambda>r. isin (cell_at r col) vs) (rows df)\<rparr>)
          else Inl (KeyError [col]))"

text \<open>
  \<^verbatim>\<open>series.dt.date\<close>: the calendar day of a timestamp. The \<^verbatim>\<open>.dt\<close> accessor
  exists only on a datetime column, that is one whose cells are all timestamps or
  \<open>NaT\<close>; on any other column pandas raises \<^verbatim>\<open>AttributeError\<close>.
\<close>

definition is_datetime_cell :: "cell \<Rightarrow> bool" where
  "is_datetime_cell v = (case v of Timestamp _ \<Rightarrow> True | NaT \<Rightarrow> True | _ \<Rightarrow> False)"

definition date_of :: "int \<Rightarrow> int" where
  "date_of t = t div 86400"

definition date_in_range :: "int \<Rightarrow> int \<Rightarrow> cell \<Rightarrow> bool" where
  "date_in_range s e v =
     (case v of Timestamp t \<Rightarrow> s \<le> date_of t \<and> date_of t \<le> e | _ \<Rightarrow> False)"

definition filter_date :: "int \<Rightarrow> int \<Rightarrow> dataframe \<Rightarrow> error + dataframe" where
  "filter_date s e df =
     (if \<not> has_column df ''dispatched_at'' then Inl (KeyError [''dispatched_at''])
      else if \<not> list_all (\<lambda>r. is_datetime_cell (cell_at r ''dispatched_at'')) (rows df)
      then Inl (AttributeError ''Can only use .dt accessor with datetimelike values'')
      else Inr (df\<lparr>rows := filter (\<lambda>r. date_in_range s e (cell_at r ''dispatched_at'')) (rows df)\<rparr>))"

text \<open>
  The filter dates reach the function as calendar days (the day numbers of
  \<^verbatim>\<open>pd.to_datetime(start_date).date()\<close>), \<open>None\<close> when the date picker is empty.
\<close>

definition apply_filters ::
  "dataframe \<Rightarrow> string list option \<Rightarrow> string list option \<Rightarrow> int option \<Rightarrow> int option
     \<Rightarrow> error + dataframe" where
  "apply_filters df filter_country filter_campaign_type start_date end_date =
     (case filter_isin ''country_name'' filter_country df of
        Inl err \<Rightarrow> Inl err
      | Inr d1 \<Rightarrow>
          (case filter_isin ''campaign_type'' filter_campaign_type d1 of
             Inl err \<Rightarrow> Inl err
           | Inr d2 \<Rightarrow>
               (case (start_date, end_date) of
                  (Some s, Some e) \<Rightarrow> filter_date s e d2
                | _ \<Rightarrow> Inr d2)))"

section \<open>The libraries the program calls\<close>

text \<open>
  The program calls pandas, phonenumbers, pycountry and the regular expression engine.
  What they compute is not part of the repository, so it is a parameter of the model: a
  record of functions, one per call. A call that can raise returns a sum.
  \<^item> \<open>read_csv\<close>: base64-decoding the upload and \<^verbatim>\<open>pd.read_csv\<close> (lines 182-184);
  \<^item> \<open>phonenumbers_parse\<close>: \<^verbatim>\<open>phonenumbers.parse(s, None)\<close>, a parsed number as
    (country calling code, national number);
  \<^item> \<open>region_code_for_number\<close>: the region code, or \<^verbatim>\<open>None\<close>;
  \<^item> \<open>countries_get\<close>: \<^verbatim>\<open>pycountry.countries.get(alpha_2=code)\<close> followed by
    \<^verbatim>\<open>.name\<close>: the name of the country found, or \<^verbatim>\<open>None\<close> when no country is found;
  \<^item> \<open>py_str\<close>: \<^verbatim>\<open>str(x)\<close> of a cell that is not a string;
  \<^item> \<open>to_datetime\<close>: \<^verbatim>\<open>pd.to_datetime(column, errors='coerce')\<close> at one cell of the
    column (pandas infers the format from the column), \<open>None\<close> where parsing fails;
  \<^item> \<open>re_search\<close>: \<^verbatim>\<open>re.search(pattern, s)\<close> finds a match;
  \<^item> \<open>series_sum\<close>: \<^verbatim>\<open>Series.sum()\<close> of a float64 column, from its values in order:
    numpy adds them in double arithmetic, grouped as it sees fit;
  \<^item> \<open>nargsort_desc\<close>: the row positions in the order that
    \<^verbatim>\<open>sort_values(ascending=False)\<close> with the default \<^verbatim>\<open>kind='quicksort'\<close> gives,
    from the sort keys.
\<close>

record libs =
  read_csv :: "string \<Rightarrow> error + dataframe"
  phonenumbers_parse :: "string \<Rightarrow> error + (int \<times> int)"
  region_code_for_number :: "int \<times> int \<Rightarrow> string option"
  countries_get :: "string \<Rightarrow> error + string option"
  py_str :: "cell \<Rightarrow> string"
  to_datetime :: "cell list \<Rightarrow> cell \<Rightarrow> int option"
  re_search :: "string \<Rightarrow> string \<Rightarrow> bool"
  series_sum :: "rat list \<Rightarrow> rat"
  nargsort_desc :: "rat list \<Rightarrow> nat list"

section \<open>Strings\<close>

text \<open>
  \<^verbatim>\<open>s.lower()\<close> on the ASCII letters: the keywords and column labels that the program
  compares with are ASCII.
\<close>

definition lower_char :: "char \<Rightarrow> char" where
  "lower_char c =
     (let n = (of_char c :: nat) in if 65 \<le> n \<and> n \<le> 90 then char_of (n + 32) else c)"

definition lower :: "string \<Rightarrow> string" where
  "lower s = map lower_char s"

text \<open>\<^verbatim>\<open>s.replace('_', ' ')\<close>\<close>

definition replace_underscores :: "string \<Rightarrow> string" where
  "replace_underscores s = map (\<lambda>c. if c = CHR ''_'' then CHR '' '' else c) s"

text \<open>\<^verbatim>\<open>sub in s\<close> on strings: \<open>sub\<close> occurs in \<open>s\<close> as a contiguous block.\<close>

definition py_in :: "string \<Rightarrow> string \<Rightarrow> bool" where
  "py_in sub s = sublist sub s"

text \<open>\<^verbatim>\<open>str(x)\<close> of a cell.\<close>

definition str_of :: "libs \<Rightarrow> cell \<Rightarrow> string" where
  "str_of L v = (case v of Str s \<Rightarrow> s | _ \<Rightarrow> py_str L v)"

section \<open>Country Resolver: \<^verbatim>\<open>get_country_name\<close>\<close>

definition special_cases :: "(string \<times> string) list" where
  "special_cases = [(''KSA'', ''Saudi Arabia''), (''UAE'', ''United Arab Emirates'')]"

text \<open>
  The inner \<^verbatim>\<open>try\<close> catches \<^verbatim>\<open>AttributeError\<close> around the country lookup, the
  outer one catches \<^verbatim>\<open>NumberParseException\<close> around the whole body; any other
  exception of a library leaves the function.
\<close>

definition lookup_country :: "libs \<Rightarrow> string \<Rightarrow> error + string" where
  "lookup_country L country_code =
     (case countries_get L country_code of
        Inr (Some name) \<Rightarrow> Inr name
      | Inr None \<Rightarrow> Inr country_code
      | Inl (AttributeError _) \<Rightarrow>
          Inr (case map_of special_cases country_code of
                 Some name \<Rightarrow> name
               | None \<Rightarrow> country_code)
      | Inl err \<Rightarrow> Inl err)"

text \<open>Lines 28-29: the number with a leading \<open>+\<close>.\<close>

definition with_plus :: "string \<Rightarrow> string" where
  "with_plus phone_number =
     (if prefix ''+'' phone_number then phone_number else ''+'' @ phone_number)"

definition get_country_name :: "libs \<Rightarrow> string \<Rightarrow> error + string" where
  "get_country_name L phone_number =
     (let body =
            (case phonenumbers_parse L (with_plus phone_number) of
               Inl err \<Rightarrow> Inl err
             | Inr parsed_number \<Rightarrow>
                 (case region_code_for_number L parsed_number of
                    None \<Rightarrow> Inr ''Unknown''
                  | Some country_code \<Rightarrow>
                      if country_code = [] then Inr ''Unknown''
                      else lookup_country L country_code))
      in case body of
           Inl NumberParseException \<Rightarrow> Inr ''Unknown''
         | other \<Rightarrow> other)"

section \<open>Schema Normalizer, Campaign Classifier and Record Enricher:
  \<^verbatim>\<open>process_uploaded_file\<close>\<close>

definition column_mapping :: "(string \<times> string) list" where
  "column_mapping =
     [(''Button Clicks'', ''button_clicks''),
      (''Delivered'', ''delivered''),
      (''Link Clicks'', ''link_clicks''),
      (''Read'', ''read_at''),
      (''Sent'', ''sent_at''),
      (''Campaign Name'', ''campaign_name''),
      (''campaign'', ''campaign_name''),
      (''Campaign'', ''campaign_name'')]"

text \<open>\<^verbatim>\<open>df.rename(columns=mapping)\<close>\<close>

definition rename_label :: "(string \<times> string) list \<Rightarrow> string \<Rightarrow> string" where
  "rename_label mapping c = (case map_of mapping c of Some new_col \<Rightarrow> new_col | None \<Rightarrow> c)"

definition rename_columns :: "(string \<times> string) list \<Rightarrow> dataframe \<Rightarrow> dataframe" where
  "rename_columns mapping df =
     \<lparr>columns = map (rename_label mapping) (columns df),
      rows = map (map (\<lambda>(c, v). (rename_label mapping c, v))) (rows df)\<rparr>"

definition rename_column :: "string \<Rightarrow> string \<Rightarrow> dataframe \<Rightarrow> dataframe" where
  "rename_column old_col new_col df = rename_columns [(old_col, new_col)] df"

definition apply_column_mapping :: "dataframe \<Rightarrow> dataframe" where
  "apply_column_mapping df =
     fold (\<lambda>(old_col, new_col) d.
             if old_col \<in> set (columns d) then rename_column old_col new_col d else d)
          column_mapping df"

definition find_campaign_column :: "dataframe \<Rightarrow> error + dataframe" where
  "find_campaign_column df =
     (if ''campaign_name'' \<in> set (columns df) then Inr df
      else
        (case filter (\<lambda>col. py_in ''campaign'' (lower col)) (columns df) of
           col # _ \<Rightarrow> Inr (rename_column col ''campaign_name'' df)
         | [] \<Rightarrow> Inl (ValueError ''Could not find campaign name column in the CSV file'')))"

definition commercial_keywords :: "string list" where
  "commercial_keywords =
     [''cpc'', ''dt'', ''gem'', ''top up'', ''top_up'', ''topup'', ''automation'']"

definition is_commercial_campaign :: "libs \<Rightarrow> cell \<Rightarrow> bool" where
  "is_commercial_campaign L campaign_name =
     (let name = lower (str_of L campaign_name)
      in list_ex (\<lambda>keyword. py_in keyword (replace_underscores name)) commercial_keywords)"

text \<open>
  \<^verbatim>\<open>df[c] = values\<close>: an existing column keeps its place and gets the new cells, a new
  column is appended.
\<close>

definition assign :: "string \<Rightarrow> cell list \<Rightarrow> dataframe \<Rightarrow> dataframe" where
  "assign c values df =
     \<lparr>columns = (if c \<in> set (columns df) then columns df else columns df @ [c]),
      rows = map (\<lambda>(r, v). AList.update c v r) (zip (rows df) values)\<rparr>"

text \<open>\<^verbatim>\<open>series.apply(f)\<close> for a function that can raise: the first exception ends it.\<close>

fun apply_raising :: "('a \<Rightarrow> error + 'b) \<Rightarrow> 'a list \<Rightarrow> error + 'b list" where
  "apply_raising f [] = Inr []"
| "apply_raising f (x # xs) =
     (case f x of
        Inl err \<Rightarrow> Inl err
      | Inr y \<Rightarrow> (case apply_raising f xs of Inl err \<Rightarrow> Inl err | Inr ys \<Rightarrow> Inr (y # ys)))"

definition fillna :: "cell \<Rightarrow> cell \<Rightarrow> cell" where
  "fillna d v = (if notna v then v else d)"

definition coerce_datetime :: "libs \<Rightarrow> cell list \<Rightarrow> cell \<Rightarrow> cell" where
  "coerce_datetime L col v = (case to_datetime L col v of Some t \<Rightarrow> Timestamp t | None \<Rightarrow> NaT)"

text \<open>\<^verbatim>\<open>df.dropna(subset=[c])\<close>\<close>

definition dropna :: "string \<Rightarrow> dataframe \<Rightarrow> dataframe" where
  "dropna c df = df\<lparr>rows := filter (\<lambda>r. notna (cell_at r c)) (rows df)\<rparr>"

definition column_values :: "string \<Rightarrow> dataframe \<Rightarrow> cell list" where
  "column_values c df = map (\<lambda>r. cell_at r c) (rows df)"

definition add_campaign_type :: "libs \<Rightarrow> dataframe \<Rightarrow> dataframe" where
  "add_campaign_type L df =
     assign ''campaign_type''
       (map (\<lambda>x. Str (if is_commercial_campaign L x then ''Commercial'' else ''Non-Commercial''))
            (column_values ''campaign_name'' df))
       df"

definition add_country_name :: "libs \<Rightarrow> dataframe \<Rightarrow> error + dataframe" where
  "add_country_name L df =
     (if \<not> has_column df ''customer_external_id'' then Inl (KeyError [''customer_external_id''])
      else
        (case apply_raising (\<lambda>v. get_country_name L (str_of L v))
                (column_values ''customer_external_id'' df) of
           Inl err \<Rightarrow> Inl err
         | Inr names \<Rightarrow>
             Inr (assign ''country_name'' (map (\<lambda>n. fillna (Str ''Unknown'') (Str n)) names) df)))"

definition parse_dates :: "libs \<Rightarrow> dataframe \<Rightarrow> error + dataframe" where
  "parse_dates L df =
     (if \<not> has_column df ''dispatched_at'' then Inl (KeyError [''dispatched_at''])
      else
        (let col = column_values ''dispatched_at'' df
         in Inr (dropna ''dispatched_at''
                   (assign ''dispatched_at'' (map (coerce_datetime L col) col) df))))"

definition process_uploaded_file :: "libs \<Rightarrow> string \<Rightarrow> error + dataframe" where
  "process_uploaded_file L contents =
     (case read_csv L contents of
        Inl err \<Rightarrow> Inl err
      | Inr df \<Rightarrow>
          (case find_campaign_column (apply_column_mapping df) of
             Inl err \<Rightarrow> Inl err
           | Inr df1 \<Rightarrow>
               (case add_country_name L (add_campaign_type L df1) of
                  Inl err \<Rightarrow> Inl err
                | Inr df2 \<Rightarrow> parse_dates L df2)))"

section \<open>Aggregation Engine\<close>

subsection \<open>Grouping and counting\<close>

text \<open>
  \<^verbatim>\<open>df.groupby(by)\<close> drops the rows whose key is missing and orders the groups by key.
  The order of keys is that of their values; keys of different kinds do not occur in one
  column, and are ordered by kind here.
\<close>

definition key_order :: "cell \<Rightarrow> nat \<times> rat \<times> string" where
  "key_order v =
     (case v of
        Num x \<Rightarrow> (0, x, [])
      | Timestamp t \<Rightarrow> (1, of_int t, [])
      | Str s \<Rightarrow> (2, 0, s)
      | NegInf \<Rightarrow> (3, 0, [])
      | PosInf \<Rightarrow> (4, 0, [])
      | _ \<Rightarrow> (5, 0, []))"

definition group_keys :: "string \<Rightarrow> row list \<Rightarrow> cell list" where
  "group_keys by rs = sort_key key_order (remdups (filter notna (map (\<lambda>r. cell_at r by) rs)))"

definition group_rows :: "string \<Rightarrow> cell \<Rightarrow> row list \<Rightarrow> row list" where
  "group_rows by k rs = filter (\<lambda>r. cell_at r by = k) rs"

text \<open>
  \<^verbatim>\<open>df.groupby(by).agg({c: 'count', ...}).reset_index()\<close>: one row per group with the
  key and, for each listed column, the number of its non-missing cells in the group. A
  label that is not a column raises \<^verbatim>\<open>KeyError\<close>.
\<close>

definition groupby_count :: "string \<Rightarrow> string list \<Rightarrow> dataframe \<Rightarrow> error + dataframe" where
  "groupby_count by cs df =
     (if \<not> has_column df by then Inl (KeyError [by])
      else
        (case filter (\<lambda>c. \<not> has_column df c) cs of
           [] \<Rightarrow>
             Inr \<lparr>columns = by # cs,
                  rows = map (\<lambda>k. (by, k) #
                                map (\<lambda>c. (c, Num (of_nat (count_col c (group_rows by k (rows df)))))) cs)
                             (group_keys by (rows df))\<rparr>
         | missing \<Rightarrow> Inl (KeyError missing)))"

subsection \<open>Printing numbers\<close>

definition digit_char :: "nat \<Rightarrow> char" where
  "digit_char d = char_of (48 + d)"

fun show_nat :: "nat \<Rightarrow> string" where
  "show_nat n = (if n < 10 then [digit_char n] else show_nat (n div 10) @ [digit_char (n mod 10)])"

declare show_nat.simps [simp del]

definition round_half_even :: "rat \<Rightarrow> int" where
  "round_half_even x =
     (let f = \<lfloor>x\<rfloor>; d = x - of_int f
      in if d < 1 / 2 then f else if 1 / 2 < d then f + 1 else if even f then f else f + 1)"

text \<open>\<^verbatim>\<open>f"{x:.2f}"\<close>\<close>

definition format_2f :: "rat \<Rightarrow> string" where
  "format_2f x =
     (let n = nat (round_half_even (\<bar>x\<bar> * 100))
      in (if x < 0 then ''-'' else []) @ show_nat (n div 100) @ ''.'' @
         [digit_char (n mod 100 div 10), digit_char (n mod 10)])"

text \<open>
  \<^verbatim>\<open>str(x)\<close> of a float that has at most two decimals (what \<^verbatim>\<open>round(2)\<close> leaves):
  the shortest decimal, with at least one digit after the point.
\<close>

definition float_str :: "rat \<Rightarrow> string" where
  "float_str x =
     (let n = nat \<lfloor>\<bar>x\<bar> * 100\<rfloor>
      in (if x < 0 then ''-'' else []) @ show_nat (n div 100) @ ''.'' @
         (if n mod 10 = 0 then [digit_char (n mod 100 div 10)]
          else [digit_char (n mod 100 div 10), digit_char (n mod 10)]))"

subsection \<open>Tables\<close>

text \<open>
  What a view returns: a \<^verbatim>\<open>dash_table.DataTable\<close> with its id, its column labels
  and its records (the styling is left out), a \<^verbatim>\<open>html.Div\<close> with a message, or the
  row of product cards.
\<close>

datatype summary_card = Card string nat nat rat

datatype component =
    Div string
  | DataTable string "string list" "row list"
  | CardRow "summary_card list"

definition create_data_table :: "dataframe \<Rightarrow> component" where
  "create_data_table df = DataTable ''data-table'' (columns df) (rows df)"

definition create_summary_table :: "dataframe \<Rightarrow> error + component" where
  "create_summary_table df =
     (case groupby_count ''campaign_name''
             [''dispatched_at'', ''sent_at'', ''delivered_at'', ''read_at'',
              ''button_clicks'', ''link_clicks''] df of
        Inl err \<Rightarrow> Inl err
      | Inr g \<Rightarrow>
          (let summary_df =
                 rename_columns
                   [(''dispatched_at'', ''Dispatched''),
                    (''sent_at'', ''Sent''),
                    (''delivered_at'', ''Delivered''),
                    (''read_at'', ''Read''),
                    (''button_clicks'', ''Button Clicks''),
                    (''link_clicks'', ''Link Clicks'')] g
           in Inr (DataTable ''summary-table'' (columns summary_df) (rows summary_df))))"

subsection \<open>Double arithmetic\<close>

text \<open>
  The costs are float64 values. A finite double is modelled by its exact value, and an
  operation on doubles by the exact result rounded to the nearest double, a tie to the
  one with the even significand (53 bits). Overflow and subnormal results are not
  modelled: no cost comes near them.
\<close>

fun bit_length :: "nat \<Rightarrow> nat" where
  "bit_length n = (if n = 0 then 0 else Suc (bit_length (n div 2)))"

declare bit_length.simps [simp del]

definition pow2 :: "int \<Rightarrow> rat" where
  "pow2 e = (if 0 \<le> e then 2 ^ nat e else 1 / 2 ^ nat (- e))"

text \<open>The integer part of the binary logarithm of a positive number.\<close>

definition log2_floor :: "rat \<Rightarrow> int" where
  "log2_floor x =
     (if 1 \<le> x then int (bit_length (nat \<lfloor>x\<rfloor>)) - 1
      else (let l = int (bit_length (nat \<lfloor>1 / x\<rfloor>)) - 1
            in if 1 / x = pow2 l then - l else - l - 1))"

text \<open>The double nearest to a number.\<close>

definition double :: "rat \<Rightarrow> rat" where
  "double x =
     (if x = 0 then 0
      else (let e = log2_floor \<bar>x\<bar> - 52
            in sgn x * of_int (round_half_even (\<bar>x\<bar> / pow2 e)) * pow2 e))"

subsection \<open>Cost Analysis\<close>

definition num_of :: "cell \<Rightarrow> rat" where
  "num_of v = (case v of Num x \<Rightarrow> x | _ \<Rightarrow> 0)"

text \<open>\<^verbatim>\<open>series.sum()\<close> of an integer column: the sum of the integers.\<close>

definition int_sum_col :: "string \<Rightarrow> row list \<Rightarrow> rat" where
  "int_sum_col c rs = sum_list (map (\<lambda>r. num_of (cell_at r c)) rs)"

text \<open>\<^verbatim>\<open>series.sum()\<close> of a float64 column: the library's sum of the doubles.\<close>

definition float_sum_col :: "libs \<Rightarrow> string \<Rightarrow> row list \<Rightarrow> rat" where
  "float_sum_col L c rs = series_sum L (map (\<lambda>r. num_of (cell_at r c)) rs)"

text \<open>
  \<^verbatim>\<open>series * q\<close> for an integer column and a double \<open>q\<close>: each integer becomes a
  double and is multiplied in double arithmetic.
\<close>

definition float_times :: "cell \<Rightarrow> rat \<Rightarrow> cell" where
  "float_times v q = (case v of Num x \<Rightarrow> Num (double (double x * q)) | other \<Rightarrow> other)"

text \<open>
  Lines 369-389: the cost frame while its cells are still numbers, the totals row
  appended. The literal \<^verbatim>\<open>0.04\<close> is the double nearest to 4/100.
\<close>

definition cost_frame :: "libs \<Rightarrow> dataframe \<Rightarrow> error + dataframe" where
  "cost_frame L df =
     (if \<not> has_column df ''campaign_type'' then Inl (KeyError [''campaign_type''])
      else
        (let non_commercial =
               df\<lparr>rows := filter (\<lambda>r. cell_at r ''campaign_type'' = Str ''Non-Commercial'') (rows df)\<rparr>
         in case groupby_count ''campaign_name'' [''delivered_at''] non_commercial of
              Inl err \<Rightarrow> Inl err
            | Inr g \<Rightarrow>
                (let cost_df =
                       rename_columns [(''delivered_at'', ''Delivered Messages'')]
                         (assign ''Cost (USD)''
                            (map (\<lambda>v. float_times v (double (4 / 100)))
                                 (column_values ''delivered_at'' g)) g);
                     totals =
                       [(''campaign_name'', Str ''Total''),
                        (''Delivered Messages'', Num (int_sum_col ''Delivered Messages'' (rows cost_df))),
                        (''Cost (USD)'', Num (float_sum_col L ''Cost (USD)'' (rows cost_df)))]
                 in Inr (cost_df\<lparr>rows := rows cost_df @ [totals]\<rparr>))))"

definition format_cost :: "cell \<Rightarrow> cell" where
  "format_cost v = (case v of Num x \<Rightarrow> Str (''$'' @ format_2f x) | other \<Rightarrow> other)"

definition create_cost_analysis_table :: "libs \<Rightarrow> dataframe \<Rightarrow> error + component" where
  "create_cost_analysis_table L df =
     (case cost_frame L df of
        Inl err \<Rightarrow> Inl err
      | Inr cost_df \<Rightarrow>
          (let formatted =
                 assign ''Cost (USD)''
                   (map format_cost (column_values ''Cost (USD)'' cost_df)) cost_df
           in Inr (DataTable ''cost-table'' (columns formatted) (rows formatted))))"

subsection \<open>Country Analysis\<close>

text \<open>
  Division of two count columns. pandas does not raise on a zero divisor: the quotient is
  \<open>NaN\<close> for \<open>0 / 0\<close> and an infinity otherwise.
\<close>

definition times_cell :: "cell \<Rightarrow> rat \<Rightarrow> cell" where
  "times_cell v q = (case v of Num x \<Rightarrow> Num (x * q) | other \<Rightarrow> other)"

definition true_divide :: "cell \<Rightarrow> cell \<Rightarrow> cell" where
  "true_divide a b =
     (case (a, b) of
        (Num x, Num y) \<Rightarrow>
          if y \<noteq> 0 then Num (x / y)
          else if x = 0 then NaN
          else if 0 < x then PosInf else NegInf
      | _ \<Rightarrow> NaN)"

definition round2 :: "cell \<Rightarrow> cell" where
  "round2 v = (case v of Num x \<Rightarrow> Num (of_int (round_half_even (x * 100)) / 100) | other \<Rightarrow> other)"

definition rate :: "row \<Rightarrow> string \<Rightarrow> string \<Rightarrow> cell" where
  "rate r num den = round2 (times_cell (true_divide (cell_at r num) (cell_at r den)) 100)"

text \<open>\<^verbatim>\<open>f"{x}%"\<close>\<close>

definition format_percent :: "cell \<Rightarrow> cell" where
  "format_percent v =
     (case v of
        Num x \<Rightarrow> Str (float_str x @ ''%'')
      | NaN \<Rightarrow> Str ''nan%''
      | PosInf \<Rightarrow> Str ''inf%''
      | NegInf \<Rightarrow> Str ''-inf%''
      | other \<Rightarrow> other)"

text \<open>\<^verbatim>\<open>df.sort_values(c, ascending=False)\<close>: the rows in the order the library gives.\<close>

definition sort_values_desc :: "libs \<Rightarrow> string \<Rightarrow> dataframe \<Rightarrow> dataframe" where
  "sort_values_desc L c df =
     df\<lparr>rows := map (\<lambda>i. rows df ! i) (nargsort_desc L (map (\<lambda>r. num_of (cell_at r c)) (rows df)))\<rparr>"

text \<open>Lines 421-445: the country frame before it is sorted.\<close>

definition country_frame :: "dataframe \<Rightarrow> error + dataframe" where
  "country_frame df =
     (case groupby_count ''country_name''
             [''dispatched_at'', ''delivered_at'', ''read_at'', ''button_clicks'', ''link_clicks''] df of
        Inl err \<Rightarrow> Inl err
      | Inr g \<Rightarrow>
          (let g1 = assign ''Delivery Rate''
                      (map (\<lambda>r. rate r ''delivered_at'' ''dispatched_at'') (rows g)) g;
               g2 = assign ''Read Rate''
                      (map (\<lambda>r. rate r ''read_at'' ''delivered_at'') (rows g1)) g1;
               g3 = rename_columns
                      [(''country_name'', ''Country''),
                       (''dispatched_at'', ''Dispatched''),
                       (''delivered_at'', ''Delivered''),
                       (''read_at'', ''Read''),
                       (''button_clicks'', ''Button Clicks''),
                       (''link_clicks'', ''Link Clicks'')] g2;
               g4 = assign ''Delivery Rate''
                      (map format_percent (column_values ''Delivery Rate'' g3)) g3;
               g5 = assign ''Read Rate''
                      (map format_percent (column_values ''Read Rate'' g4)) g4
           in Inr g5))"

definition create_country_analysis_table :: "libs \<Rightarrow> dataframe \<Rightarrow> error + component" where
  "create_country_analysis_table L df =
     (case country_frame df of
        Inl err \<Rightarrow> Inl err
      | Inr g \<Rightarrow>
          (let country_df = sort_values_desc L ''Dispatched'' g
           in Inr (DataTable ''country-table'' (columns country_df) (rows country_df))))"

subsection \<open>Product Summary Cards\<close>

definition products :: "(string \<times> string) list" where
  "products =
     [(''CPC'', ''auto.*cpc''),
      (''Top Up'', ''.*top.*up.*''),
      (''Gem'', ''auto.*gem''),
      (''DT'', ''auto.*dt'')]"

text \<open>
  The \<^verbatim>\<open>.str\<close> accessor raises \<^verbatim>\<open>AttributeError\<close> on a column that holds values
  and no string among them.
\<close>

definition is_str :: "cell \<Rightarrow> bool" where
  "is_str v = (case v of Str _ \<Rightarrow> True | _ \<Rightarrow> False)"

definition str_accessor_ok :: "string \<Rightarrow> row list \<Rightarrow> bool" where
  "str_accessor_ok c rs = (rs = [] \<or> list_ex (\<lambda>r. is_str (cell_at r c)) rs)"

text \<open>\<^verbatim>\<open>series.str.lower().str.contains(pattern, regex=True, na=False, case=False)\<close>\<close>

definition str_contains :: "libs \<Rightarrow> string \<Rightarrow> cell \<Rightarrow> bool" where
  "str_contains L pattern v = (case v of Str s \<Rightarrow> re_search L pattern (lower s) | _ \<Rightarrow> False)"

definition product_card :: "libs \<Rightarrow> dataframe \<Rightarrow> string \<times> string \<Rightarrow> error + summary_card" where
  "product_card L df p =
     (case p of (product, pattern) \<Rightarrow>
        if \<not> has_column df ''campaign_name'' then Inl (KeyError [''campaign_name''])
        else if \<not> str_accessor_ok ''campaign_name'' (rows df)
        then Inl (AttributeError ''Can only use .str accessor with string values!'')
        else
          (let product_data =
                 filter (\<lambda>r. str_contains L pattern (cell_at r ''campaign_name'')) (rows df)
           in if \<not> has_column df ''dispatched_at'' then Inl (KeyError [''dispatched_at''])
              else if \<not> has_column df ''delivered_at'' then Inl (KeyError [''delivered_at''])
              else
                (let dispatched = count_col ''dispatched_at'' product_data;
                     delivered = count_col ''delivered_at'' product_data;
                     delivery_rate =
                       (if 0 < dispatched then of_nat delivered / of_nat dispatched * 100 else 0)
                 in Inr (Card product dispatched delivered delivery_rate))))"

definition create_product_summary_cards :: "libs \<Rightarrow> dataframe \<Rightarrow> error + component" where
  "create_product_summary_cards L df =
     (case apply_raising (product_card L df) products of
        Inl err \<Rightarrow> Inl err
      | Inr cards \<Rightarrow> Inr (CardRow cards))"

section \<open>The callback \<^verbatim>\<open>update_content\<close> and the dataset slot\<close>

text \<open>
  The global \<^verbatim>\<open>data\<close> is the state: \<open>None\<close> before the first upload. The callback
  takes the state and the request and returns what it returns (or the exception that
  leaves it) together with the new state. An output is a value or \<^verbatim>\<open>dash.no_update\<close>.
\<close>

datatype 'a out = no_update | Out 'a

record outputs =
  filters_style :: "string out"
  country_options :: "string list out"
  date_start :: "int option out"
  date_end :: "int option out"
  tab_content :: "component out"
  product_summary :: "component out"

record request =
  triggered :: "string list"
  contents :: "string option"
  active_tab :: string
  filter_country :: "string list option"
  filter_campaign_type :: "string list option"
  start_date :: "int option"
  end_date :: "int option"

definition content_only :: "component \<Rightarrow> outputs" where
  "content_only c =
     \<lparr>filters_style = no_update, country_options = no_update, date_start = no_update,
      date_end = no_update, tab_content = Out c, product_summary = no_update\<rparr>"

definition nothing :: outputs where
  "nothing =
     \<lparr>filters_style = no_update, country_options = no_update, date_start = no_update,
      date_end = no_update, tab_content = no_update, product_summary = no_update\<rparr>"

text \<open>\<^verbatim>\<open>str(e)\<close> of an exception.\<close>

fun quoted_labels :: "string list \<Rightarrow> string" where
  "quoted_labels [] = []"
| "quoted_labels [c] = [CHR 0x27] @ c @ [CHR 0x27]"
| "quoted_labels (c # cs) = [CHR 0x27] @ c @ [CHR 0x27] @ '', '' @ quoted_labels cs"

definition error_str :: "error \<Rightarrow> string" where
  "error_str err =
     (case err of
        KeyError cs \<Rightarrow> quoted_labels cs
      | ValueError m \<Rightarrow> m
      | AttributeError m \<Rightarrow> m
      | NumberParseException \<Rightarrow> ''NumberParseException''
      | PreventUpdate \<Rightarrow> []
      | OtherError m \<Rightarrow> m)"

definition upload_failed :: "error \<Rightarrow> outputs" where
  "upload_failed err =
     \<lparr>filters_style = Out ''none'', country_options = Out [], date_start = Out None,
      date_end = Out None, tab_content = Out (Div (''Error: '' @ error_str err)),
      product_summary = Out (Div [])\<rparr>"

text \<open>\<^verbatim>\<open>sorted(df['country_name'].unique())\<close>; Python cannot order a string and a float.\<close>

definition sorted_countries :: "dataframe \<Rightarrow> error + string list" where
  "sorted_countries df =
     (if \<not> has_column df ''country_name'' then Inl (KeyError [''country_name''])
      else
        (let vs = remdups (column_values ''country_name'' df)
         in if list_all is_str vs
            then Inr (sort (map (\<lambda>v. case v of Str s \<Rightarrow> s | _ \<Rightarrow> []) vs))
            else Inl (OtherError ''TypeError'')))"

definition timestamps :: "dataframe \<Rightarrow> int list" where
  "timestamps df =
     concat (map (\<lambda>v. case v of Timestamp t \<Rightarrow> [t] | _ \<Rightarrow> []) (column_values ''dispatched_at'' df))"

text \<open>\<^verbatim>\<open>df['dispatched_at'].min().date()\<close>, \<open>None\<close> for \<open>NaT\<close>.\<close>

definition min_date :: "dataframe \<Rightarrow> int option" where
  "min_date df = (case timestamps df of [] \<Rightarrow> None | t # ts \<Rightarrow> Some (date_of (fold min ts t)))"

definition max_date :: "dataframe \<Rightarrow> int option" where
  "max_date df = (case timestamps df of [] \<Rightarrow> None | t # ts \<Rightarrow> Some (date_of (fold max ts t)))"

text \<open>
  Lines 269-281. The assignment \<^verbatim>\<open>data = df\<close> comes right after
  \<^verbatim>\<open>process_uploaded_file\<close> returns, before the values of the \<^verbatim>\<open>return\<close>
  statement are computed; \<^verbatim>\<open>except Exception\<close> turns any exception of the block
  into the error message.
\<close>

definition upload :: "libs \<Rightarrow> dataframe option \<Rightarrow> string \<Rightarrow> outputs \<times> dataframe option" where
  "upload L data cts =
     (case process_uploaded_file L cts of
        Inl err \<Rightarrow> (upload_failed err, data)
      | Inr df \<Rightarrow>
          (let data' = Some df
           in case sorted_countries df of
                Inl err \<Rightarrow> (upload_failed err, data')
              | Inr options \<Rightarrow>
                  (case create_product_summary_cards L df of
                     Inl err \<Rightarrow> (upload_failed err, data')
                   | Inr cards \<Rightarrow>
                       (\<lparr>filters_style = Out ''block'', country_options = Out options,
                         date_start = Out (min_date df), date_end = Out (max_date df),
                         tab_content = Out (create_data_table df),
                         product_summary = Out cards\<rparr>, data'))))"

definition show_content :: "error + component \<Rightarrow> error + outputs" where
  "show_content t = (case t of Inl err \<Rightarrow> Inl err | Inr c \<Rightarrow> Inr (content_only c))"

definition update_content ::
  "libs \<Rightarrow> dataframe option \<Rightarrow> request \<Rightarrow> (error + outputs) \<times> dataframe option" where
  "update_content L data req =
     (case triggered req of
        [] \<Rightarrow> (Inl PreventUpdate, data)
      | prop_id # _ \<Rightarrow>
          (let trigger_id = takeWhile (\<lambda>c. c \<noteq> CHR ''.'') prop_id in
           if trigger_id = ''upload-data'' then
             (case contents req of
                None \<Rightarrow>
                  (Inr \<lparr>filters_style = Out ''none'', country_options = Out [],
                        date_start = Out None, date_end = Out None,
                        tab_content = Out (Div ''Please upload a file.''),
                        product_summary = Out (Div [])\<rparr>, data)
              | Some cts \<Rightarrow> (case upload L data cts of (out, data') \<Rightarrow> (Inr out, data')))
           else if trigger_id = ''tabs'' then
             (case data of
                None \<Rightarrow> (Inr (content_only (Div ''No data available.'')), data)
              | Some d \<Rightarrow>
                  if active_tab req = ''data-table-tab''
                  then (Inr (content_only (create_data_table d)), data)
                  else if active_tab req = ''campaign-summary-tab''
                  then (show_content (create_summary_table d), data)
                  else if active_tab req = ''cost-analysis-tab''
                  then (show_content (create_cost_analysis_table L d), data)
                  else (show_content (create_country_analysis_table L d), data))
           else if trigger_id \<in> set [''filter-button'', ''filter-country'',
                                     ''filter-campaign-type'', ''filter-date''] then
             (case data of
                None \<Rightarrow> (Inr nothing, data)
              | Some d \<Rightarrow>
                  (case apply_filters d (filter_country req) (filter_campaign_type req)
                          (start_date req) (end_date req) of
                     Inl err \<Rightarrow> (Inl err, data)
                   | Inr filtered_data \<Rightarrow>
                       if active_tab req = ''data-table-tab''
                       then (Inr (content_only (create_data_table filtered_data)), data)
                       else (show_content (create_summary_table filtered_data), data)))
           else (Inr nothing, data)))"

section \<open>The unregistered callback \<^verbatim>\<open>handle_upload_and_tabs\<close>\<close>

text \<open>
  Lines 563-637, the branch \<^verbatim>\<open>trigger == 'tabs'\<close> of the second callback of the file
  (it carries no \<^verbatim>\<open>@app.callback\<close> decorator, so Dash never calls it). It checks the
  required columns before it builds the campaign summary.
\<close>

definition required_columns :: "string list" where
  "required_columns =
     [''campaign_name'', ''dispatched_at'', ''sent_at'', ''delivered_at'',
      ''read_at'', ''button_clicks'', ''link_clicks'']"

fun join_comma :: "string list \<Rightarrow> string" where
  "join_comma [] = []"
| "join_comma [c] = c"
| "join_comma (c # cs) = c @ '', '' @ join_comma cs"

definition handle_upload_and_tabs_tabs :: "dataframe option \<Rightarrow> string \<Rightarrow> error + component" where
  "handle_upload_and_tabs_tabs data tab =
     (case data of
        None \<Rightarrow> Inr (Div ''No data available. Please upload a file.'')
      | Some d \<Rightarrow>
          if tab = ''data-table-tab'' then Inr (DataTable ''data-table'' (columns d) (rows d))
          else if tab = ''campaign-summary-tab'' then
            (case filter (\<lambda>col. col \<notin> set (columns d)) required_columns of
               [] \<Rightarrow> create_summary_table d
             | missing_columns \<Rightarrow> Inr (Div (''Missing columns: '' @ join_comma missing_columns)))
          else Inl PreventUpdate)"

section \<open>The contract of the Filter Engine, as the specification words it\<close>

text \<open>
  A record passes a country or campaign-type filter when the filter is absent or empty, or
  when its value is one of the filter's. It passes the date range when the range is
  absent (a start and an end are not both given), or when its day of dispatch lies between
  the two days, both included.
\<close>

definition passes_isin :: "string \<Rightarrow> string list option \<Rightarrow> row \<Rightarrow> bool" where
  "passes_isin col flt r =
     (case flt of None \<Rightarrow> True | Some [] \<Rightarrow> True | Some vs \<Rightarrow> isin (cell_at r col) vs)"

definition passes_date :: "int option \<Rightarrow> int option \<Rightarrow> row \<Rightarrow> bool" where
  "passes_date sd ed r =
     (case (sd, ed) of
        (Some s, Some e) \<Rightarrow> date_in_range s e (cell_at r ''dispatched_at'')
      | _ \<Rightarrow> True)"

text \<open>
  What every dataset that \<^verbatim>\<open>process_uploaded_file\<close> returns has: the two derived
  columns, and a datetime column \<^verbatim>\<open>dispatched_at\<close>.
\<close>

definition canonical :: "dataframe \<Rightarrow> bool" where
  "canonical df =
     (has_column df ''country_name'' \<and> has_column df ''campaign_type'' \<and>
      has_column df ''dispatched_at'' \<and>
      list_all (\<lambda>r. is_datetime_cell (cell_at r ''dispatched_at'')) (rows df))"

section \<open>Example inputs\<close>

text \<open>
  Three uploads and a small stand-in for the libraries, used to run the model. The first
  upload has every column the views read, under the names of the alias table where there
  is one; its third row has a date that does not parse. The second has only the three
  columns an upload needs. The third has no campaign column.
\<close>

definition full_csv :: dataframe where
  "full_csv =
     \<lparr>columns = [''Campaign Name'', ''customer_external_id'', ''dispatched_at'', ''Sent'',
                 ''delivered_at'', ''Read'', ''Button Clicks'', ''Link Clicks''],
      rows =
        [[(''Campaign Name'', Str ''Auto CPC Promo''), (''customer_external_id'', Str ''+14155552671''),
          (''dispatched_at'', Str ''2024-01-01''), (''Sent'', Str ''2024-01-01''),
          (''delivered_at'', Str ''2024-01-01''), (''Read'', Str ''2024-01-01''),
          (''Button Clicks'', Num 1), (''Link Clicks'', NaN)],
         [(''Campaign Name'', Str ''Winter Sale''), (''customer_external_id'', Str ''442071838750''),
          (''dispatched_at'', Str ''2024-01-02''), (''Sent'', Str ''2024-01-02''),
          (''delivered_at'', NaN), (''Read'', NaN),
          (''Button Clicks'', NaN), (''Link Clicks'', NaN)],
         [(''Campaign Name'', Str ''Winter Sale''), (''customer_external_id'', Str ''no phone''),
          (''dispatched_at'', Str ''soon''), (''Sent'', NaN),
          (''delivered_at'', NaN), (''Read'', NaN),
          (''Button Clicks'', NaN), (''Link Clicks'', NaN)],
         [(''Campaign Name'', Str ''Spring News''), (''customer_external_id'', Str ''no phone''),
          (''dispatched_at'', Str ''2024-01-03''), (''Sent'', Str ''2024-01-03''),
          (''delivered_at'', Str ''2024-01-03''), (''Read'', NaN),
          (''Button Clicks'', NaN), (''Link Clicks'', NaN)]]\<rparr>"

definition minimal_csv :: dataframe where
  "minimal_csv =
     \<lparr>columns = [''campaign_name'', ''customer_external_id'', ''dispatched_at''],
      rows =
        [[(''campaign_name'', Str ''Winter Sale''), (''customer_external_id'', Str ''+442071838750''),
          (''dispatched_at'', Str ''2024-01-02'')]]\<rparr>"

definition nameless_csv :: dataframe where
  "nameless_csv =
     \<lparr>columns = [''name'', ''customer_external_id'', ''dispatched_at''],
      rows =
        [[(''name'', Str ''Winter Sale''), (''customer_external_id'', Str ''+442071838750''),
          (''dispatched_at'', Str ''2024-01-02'')]]\<rparr>"

text \<open>
  The stand-in adds the doubles of a column one after the other, which is what numpy does
  with a column of two. It sorts stably. Kosovo's calling code 383 has the region code
  \<open>XK\<close>, which is not an ISO 3166 code, so the country table has no entry for it.
\<close>

definition sequential_sum :: "rat list \<Rightarrow> rat" where
  "sequential_sum xs = foldl (\<lambda>acc x. double (acc + x)) 0 xs"

definition stable_nargsort_desc :: "rat list \<Rightarrow> nat list" where
  "stable_nargsort_desc ks = map snd (sort_key (\<lambda>(k, i). - k) (zip ks [0..<length ks]))"

definition example_libs :: libs where
  "example_libs =
     \<lparr>read_csv =
        (\<lambda>s. if s = ''full'' then Inr full_csv
             else if s = ''minimal'' then Inr minimal_csv
             else if s = ''nameless'' then Inr nameless_csv
             else Inl (OtherError ''No columns to parse from file'')),
      phonenumbers_parse =
        (\<lambda>s. if s = ''+14155552671'' then Inr (1, 4155552671)
             else if s = ''+442071838750'' then Inr (44, 2071838750)
             else if s = ''+38344123456'' then Inr (383, 44123456)
             else Inl NumberParseException),
      region_code_for_number =
        (\<lambda>(cc, n). if cc = 1 then Some ''US''
                   else if cc = 44 then Some ''GB''
                   else if cc = 383 then Some ''XK''
                   else None),
      countries_get =
        (\<lambda>c. if c = ''US'' then Inr (Some ''United States'')
             else if c = ''GB'' then Inr (Some ''United Kingdom'')
             else Inr None),
      py_str = (\<lambda>v. ''nan''),
      to_datetime =
        (\<lambda>col v. if v = Str ''2024-01-01'' then Some 1704067200
                 else if v = Str ''2024-01-02'' then Some 1704153600
                 else if v = Str ''2024-01-03'' then Some 1704240000
                 else None),
      re_search = (\<lambda>pattern s. pattern = ''auto.*cpc'' \<and> s = ''auto cpc promo''),
      series_sum = sequential_sum,
      nargsort_desc = stable_nargsort_desc\<rparr>"

subsection \<open>The library's quicksort\<close>


















subsection \<open>Requests and datasets\<close>

definition request_of :: "string \<Rightarrow> string option \<Rightarrow> string \<Rightarrow> request" where
  "request_of prop_id cts tab =
     \<lparr>triggered = [prop_id], contents = cts, active_tab = tab, filter_country = None,
      filter_campaign_type = None, start_date = None, end_date = None\<rparr>"

text \<open>The datasets that the first two uploads leave in the slot.\<close>

definition full_data :: dataframe where
  "full_data =
     \<lparr>columns = [''campaign_name'', ''customer_external_id'', ''dispatched_at'', ''sent_at'',
                 ''delivered_at'', ''read_at'', ''button_clicks'', ''link_clicks'',
                 ''campaign_type'', ''country_name''],
      rows =
        [[(''campaign_name'', Str ''Auto CPC Promo''), (''customer_external_id'', Str ''+14155552671''),
          (''dispatched_at'', Timestamp 1704067200), (''sent_at'', Str ''2024-01-01''),
          (''delivered_at'', Str ''2024-01-01''), (''read_at'', Str ''2024-01-01''),
          (''button_clicks'', Num 1), (''link_clicks'', NaN),
          (''campaign_type'', Str ''Commercial''), (''country_name'', Str ''United States'')],
         [(''campaign_name'', Str ''Winter Sale''), (''customer_external_id'', Str ''442071838750''),
          (''dispatched_at'', Timestamp 1704153600), (''sent_at'', Str ''2024-01-02''),
          (''delivered_at'', NaN), (''read_at'', NaN),
          (''button_clicks'', NaN), (''link_clicks'', NaN),
          (''campaign_type'', Str ''Non-Commercial''), (''country_name'', Str ''United Kingdom'')],
         [(''campaign_name'', Str ''Spring News''), (''customer_external_id'', Str ''no phone''),
          (''dispatched_at'', Timestamp 1704240000), (''sent_at'', Str ''2024-01-03''),
          (''delivered_at'', Str ''2024-01-03''), (''read_at'', NaN),
          (''button_clicks'', NaN), (''link_clicks'', NaN),
          (''campaign_type'', Str ''Non-Commercial''), (''country_name'', Str ''Unknown'')]]\<rparr>"

definition minimal_data :: dataframe where
  "minimal_data =
     \<lparr>columns = [''campaign_name'', ''customer_external_id'', ''dispatched_at'',
                 ''campaign_type'', ''country_name''],
      rows =
        [[(''campaign_name'', Str ''Winter Sale''), (''customer_external_id'', Str ''+442071838750''),
          (''dispatched_at'', Timestamp 1704153600),
          (''campaign_type'', Str ''Non-Commercial''), (''country_name'', Str ''United Kingdom'')]]\<rparr>"




section \<open>The invariants of the Record Enricher, as the specification words them\<close>

definition is_timestamp :: "cell \<Rightarrow> bool" where
  "is_timestamp v = (case v of Timestamp _ \<Rightarrow> True | _ \<Rightarrow> False)"

text \<open>A record is valid when it has a timestamp of dispatch, one of the two campaign
  types and a country name.\<close>

definition valid_record :: "row \<Rightarrow> bool" where
  "valid_record r =
     (is_timestamp (cell_at r ''dispatched_at'') \<and>
      (cell_at r ''campaign_type'' = Str ''Commercial'' \<or>
       cell_at r ''campaign_type'' = Str ''Non-Commercial'') \<and>
      is_str (cell_at r ''country_name''))"

text \<open>The cells of a record that enrichment does not write: all but the two derived
  columns and the parsed date.\<close>

definition untouched :: "row \<Rightarrow> row" where
  "untouched r =
     filter (\<lambda>(c, v). c \<noteq> ''dispatched_at'' \<and> c \<noteq> ''campaign_type'' \<and> c \<noteq> ''country_name'') r"

text \<open>A raw record under new column labels.\<close>

definition relabel :: "(string \<Rightarrow> string) \<Rightarrow> row \<Rightarrow> row" where
  "relabel f r = map (\<lambda>(c, v). (f c, v)) r"

text \<open>The date of dispatch of a record parses, among the records \<open>rs\<close>.\<close>

definition parses :: "libs \<Rightarrow> row list \<Rightarrow> row \<Rightarrow> bool" where
  "parses L rs r =
     (to_datetime L (map (\<lambda>r'. cell_at r' ''dispatched_at'') rs) (cell_at r ''dispatched_at'') \<noteq> None)"

text \<open>A record \<open>r\<close> is the enrichment of the record \<open>r0\<close>: the cells that enrichment does
  not write are those of \<open>r0\<close>, the date of dispatch is still the one of \<open>r0\<close>, and the two
  derived cells are set.\<close>

definition enriched :: "row \<Rightarrow> row \<Rightarrow> bool" where
  "enriched r0 r =
     (untouched r = untouched r0 \<and>
      cell_at r ''dispatched_at'' = cell_at r0 ''dispatched_at'' \<and>
      (cell_at r ''campaign_type'' = Str ''Commercial'' \<or>
       cell_at r ''campaign_type'' = Str ''Non-Commercial'') \<and>
      is_str (cell_at r ''country_name''))"

section \<open>The Cost Analysis and the Country Analysis, as the specification words them\<close>

definition non_commercial_rows :: "dataframe \<Rightarrow> row list" where
  "non_commercial_rows df =
     filter (\<lambda>r. cell_at r ''campaign_type'' = Str ''Non-Commercial'') (rows df)"

text \<open>The number of delivered messages of a campaign among the records \<open>rs\<close>.\<close>

definition delivered_messages :: "row list \<Rightarrow> cell \<Rightarrow> nat" where
  "delivered_messages rs k = count_col ''delivered_at'' (group_rows ''campaign_name'' k rs)"

text \<open>The cost of a number of delivered messages: the double product with 0.04.\<close>

definition cost_of :: "nat \<Rightarrow> rat" where
  "cost_of n = double (double (of_nat n) * double (4 / 100))"

text \<open>The row of a campaign before formatting: its name, its delivered messages and
  their cost.\<close>

definition cost_group_row :: "row list \<Rightarrow> cell \<Rightarrow> row" where
  "cost_group_row rs k =
     [(''campaign_name'', k),
      (''Delivered Messages'', Num (of_nat (delivered_messages rs k))),
      (''Cost (USD)'', Num (cost_of (delivered_messages rs k)))]"






text \<open>The country frame of the first example dataset, before it is sorted: the groups in
  the order of their keys.\<close>

definition country_example :: dataframe where
  "country_example =
     \<lparr>columns = [''Country'', ''Dispatched'', ''Delivered'', ''Read'', ''Button Clicks'',
                 ''Link Clicks'', ''Delivery Rate'', ''Read Rate''],
      rows =
        [[(''Country'', Str ''United Kingdom''), (''Dispatched'', Num 1), (''Delivered'', Num 0),
          (''Read'', Num 0), (''Button Clicks'', Num 0), (''Link Clicks'', Num 0),
          (''Delivery Rate'', Str ''0.0%''), (''Read Rate'', Str ''nan%'')],
         [(''Country'', Str ''United States''), (''Dispatched'', Num 1), (''Delivered'', Num 1),
          (''Read'', Num 1), (''Button Clicks'', Num 1), (''Link Clicks'', Num 0),
          (''Delivery Rate'', Str ''100.0%''), (''Read Rate'', Str ''100.0%'')],
         [(''Country'', Str ''Unknown''), (''Dispatched'', Num 1), (''Delivered'', Num 1),
          (''Read'', Num 0), (''Button Clicks'', Num 0), (''Link Clicks'', Num 0),
          (''Delivery Rate'', Str ''100.0%''), (''Read Rate'', Str ''0.0%'')]]\<rparr>"

text \<open>The cell of a rate, from the two counts: the quotient times 100, rounded to two
  decimals, printed with a percent sign.\<close>

definition percent_cell :: "nat \<Rightarrow> nat \<Rightarrow> cell" where
  "percent_cell a b =
     format_percent (round2 (times_cell (true_divide (Num (of_nat a)) (Num (of_nat b))) 100))"

text \<open>The row of a country among the records \<open>rs\<close>: its name, the five counts of its
  records and the two rates.\<close>

definition country_row :: "row list \<Rightarrow> cell \<Rightarrow> row" where
  "country_row rs k =
     [(''Country'', k),
      (''Dispatched'', Num (of_nat (count_col ''dispatched_at'' (group_rows ''country_name'' k rs)))),
      (''Delivered'', Num (of_nat (count_col ''delivered_at'' (group_rows ''country_name'' k rs)))),
      (''Read'', Num (of_nat (count_col ''read_at'' (group_rows ''country_name'' k rs)))),
      (''Button Clicks'', Num (of_nat (count_col ''button_clicks'' (group_rows ''country_name'' k rs)))),
      (''Link Clicks'', Num (of_nat (count_col ''link_clicks'' (group_rows ''country_name'' k rs)))),
      (''Delivery Rate'',
         percent_cell (count_col ''delivered_at'' (group_rows ''country_name'' k rs))
                      (count_col ''dispatched_at'' (group_rows ''country_name'' k rs))),
      (''Read Rate'',
         percent_cell (count_col ''read_at'' (group_rows ''country_name'' k rs))
                      (count_col ''delivered_at'' (group_rows ''country_name'' k rs)))]"

section \<open>Basic facts about frames\<close>

lemma cell_at_update [simp]:
  "cell_at (AList.update k v r) c = (if c = k then v else cell_at r c)"
  by (simp add: cell_at_def update_conv')

lemma untouched_update:
  "k = ''dispatched_at'' \<or> k = ''campaign_type'' \<or> k = ''country_name'' \<Longrightarrow>
   untouched (AList.update k v r) = untouched r"
  by (induction r) (auto simp: untouched_def)

lemma assign_map:
  "rows (assign c (map f (rows df)) df) = map (\<lambda>r. AList.update c (f r) r) (rows df)"
  by (simp add: assign_def zip_map2 zip_same_conv_map)

lemma columns_assign: "set (columns (assign c vs df)) = insert c (set (columns df))"
  by (auto simp: assign_def)

lemma apply_raising_Inr:
  "apply_raising f xs = Inr ys \<Longrightarrow> list_all2 (\<lambda>x y. f x = Inr y) xs ys"
  by (induction xs arbitrary: ys) (auto split: sum.splits)

lemma has_column_rows_update [simp]: "has_column (df\<lparr>rows := rs\<rparr>) c = has_column df c"
  by (simp add: has_column_def)

lemma upload_full: "process_uploaded_file example_libs ''full'' = Inr full_data"
  by code_simp

lemma upload_minimal: "process_uploaded_file example_libs ''minimal'' = Inr minimal_data"
  by code_simp

section \<open>Filter Engine\<close>

lemma filter_isin_rows:
  assumes "has_column df col"
  shows "filter_isin col flt df = Inr (df\<lparr>rows := filter (passes_isin col flt) (rows df)\<rparr>)"
proof -
  have "passes_isin col flt = (\<lambda>r. case flt of None \<Rightarrow> True | Some [] \<Rightarrow> True
                                   | Some vs \<Rightarrow> isin (cell_at r col) vs)"
    by (rule ext) (simp add: passes_isin_def)
  with assms show ?thesis
    by (cases flt; cases "the flt") (auto simp: filter_isin_def)
qed

lemma filter_date_rows:
  "has_column df ''dispatched_at'' \<Longrightarrow>
   list_all (\<lambda>r. is_datetime_cell (cell_at r ''dispatched_at'')) (rows df) \<Longrightarrow>
   filter_date s e df =
     Inr (df\<lparr>rows := filter (\<lambda>r. date_in_range s e (cell_at r ''dispatched_at'')) (rows df)\<rparr>)"
  by (simp add: filter_date_def)

lemma apply_filters_rows:
  assumes "canonical df"
  shows "apply_filters df fc ft sd ed =
     Inr (df\<lparr>rows := filter (\<lambda>r. passes_isin ''country_name'' fc r \<and>
                                  passes_isin ''campaign_type'' ft r \<and>
                                  passes_date sd ed r) (rows df)\<rparr>)"
proof -
  from assms have c: "has_column df ''country_name''" and t: "has_column df ''campaign_type''"
    and d: "has_column df ''dispatched_at''"
    and dt: "list_all (\<lambda>r. is_datetime_cell (cell_at r ''dispatched_at'')) (rows df)"
    by (simp_all add: canonical_def)
  have conj: "\<And>P Q xs. filter P (filter Q xs) = filter (\<lambda>x. Q x \<and> P x) (xs::row list)"
    by (simp add: conj_commute)
  show ?thesis
  proof (cases "\<exists>s e. sd = Some s \<and> ed = Some e")
    case True
    then obtain s e where se: "sd = Some s" "ed = Some e" by blast
    have dt': "list_all (\<lambda>r. is_datetime_cell (cell_at r ''dispatched_at''))
                 (filter P (rows df))" for P
      using dt by (simp add: list_all_iff)
    show ?thesis
      using c t d dt'
      by (simp add: apply_filters_def filter_isin_rows filter_date_rows se passes_date_def conj
           conj_assoc)
  next
    case False
    then have nd: "passes_date sd ed r = True" for r
      by (cases sd; cases ed) (auto simp: passes_date_def)
    from False have "apply_filters df fc ft sd ed =
        (case filter_isin ''country_name'' fc df of
           Inl err \<Rightarrow> Inl err
         | Inr d1 \<Rightarrow> filter_isin ''campaign_type'' ft d1)"
      by (cases sd; cases ed) (auto simp: apply_filters_def split: sum.splits)
    then show ?thesis
      using c t by (simp add: filter_isin_rows nd conj)
  qed
qed

lemma canonical_full_data: "canonical full_data"
  by code_simp

text \<open>
  Claim C10. When exactly one of the start date and the end date is given, no date
  predicate is applied: the result is the one of the call without dates, and on a
  canonical dataset it holds exactly the records that pass the country and the
  campaign-type filters, whatever their date of dispatch.
\<close>

theorem one_sided_date_range_is_ignored:
  "apply_filters df fc ft (Some s) None = apply_filters df fc ft None None \<and>
   apply_filters df fc ft None (Some e) = apply_filters df fc ft None None \<and>
   (canonical df \<longrightarrow>
      apply_filters df fc ft (Some s) None =
        Inr (df\<lparr>rows := filter (\<lambda>r. passes_isin ''country_name'' fc r \<and>
                                     passes_isin ''campaign_type'' ft r) (rows df)\<rparr>) \<and>
      apply_filters df fc ft None (Some e) =
        Inr (df\<lparr>rows := filter (\<lambda>r. passes_isin ''country_name'' fc r \<and>
                                     passes_isin ''campaign_type'' ft r) (rows df)\<rparr>))"
proof -
  have one: "apply_filters df fc ft (Some s) None = apply_filters df fc ft None None"
    by (auto simp: apply_filters_def split: sum.splits)
  have two: "apply_filters df fc ft None (Some e) = apply_filters df fc ft None None"
    by (auto simp: apply_filters_def split: sum.splits)
  have "apply_filters df fc ft None None =
        Inr (df\<lparr>rows := filter (\<lambda>r. passes_isin ''country_name'' fc r \<and>
                                     passes_isin ''campaign_type'' ft r) (rows df)\<rparr>)"
    if "canonical df"
    using apply_filters_rows[OF that, of fc ft None None] by (simp add: passes_date_def)
  with one two show ?thesis by simp
qed

theorem one_sided_date_range_is_ignored_witness:
  "canonical full_data \<and>
   apply_filters full_data None None (Some 19725) None = Inr full_data \<and>
   apply_filters full_data None None None (Some 19723) = Inr full_data"
proof -
  have c: "canonical full_data" by (rule canonical_full_data)
  have "passes_isin col None r" for col r by (simp add: passes_isin_def)
  then have "full_data\<lparr>rows := filter (\<lambda>r. passes_isin ''country_name'' None r \<and>
                 passes_isin ''campaign_type'' None r) (rows full_data)\<rparr> = full_data"
    by simp
  with one_sided_date_range_is_ignored[of full_data None None 19725 19723] c
  show ?thesis by metis
qed

section \<open>Record Enricher\<close>

lemma rows_dropna: "rows (dropna c df) = filter (\<lambda>r. notna (cell_at r c)) (rows df)"
  by (simp add: dropna_def)

lemma columns_dropna: "columns (dropna c df) = columns df"
  by (simp add: dropna_def)

lemma rows_add_campaign_type:
  "rows (add_campaign_type L df) =
     map (\<lambda>r. AList.update ''campaign_type''
                 (Str (if is_commercial_campaign L (cell_at r ''campaign_name'')
                       then ''Commercial'' else ''Non-Commercial'')) r) (rows df)"
  by (simp add: add_campaign_type_def column_values_def assign_def zip_map2 zip_same_conv_map o_def)

lemma add_country_name_enriched:
  assumes "add_country_name L (add_campaign_type L df) = Inr df2"
  shows "list_all2 enriched (rows df) (rows df2)"
    and "set (columns df2) = insert ''country_name'' (insert ''campaign_type'' (set (columns df)))"
proof -
  let ?d1 = "add_campaign_type L df"
  from assms obtain names where
    n: "apply_raising (\<lambda>v. get_country_name L (str_of L v))
          (column_values ''customer_external_id'' ?d1) = Inr names"
    and d2: "df2 = assign ''country_name'' (map (\<lambda>n. fillna (Str ''Unknown'') (Str n)) names) ?d1"
    by (auto simp: add_country_name_def split: if_splits sum.splits)
  from apply_raising_Inr[OF n] have len: "length names = length (rows df)"
    by (auto simp: column_values_def rows_add_campaign_type dest: list_all2_lengthD)
  show "set (columns df2) = insert ''country_name'' (insert ''campaign_type'' (set (columns df)))"
    by (simp add: d2 columns_assign add_campaign_type_def)
  show "list_all2 enriched (rows df) (rows df2)"
    unfolding list_all2_conv_all_nth
  proof (intro conjI allI impI)
    show "length (rows df) = length (rows df2)"
      by (simp add: d2 assign_def len rows_add_campaign_type)
  next
    fix i assume i: "i < length (rows df)"
    then have "rows df2 ! i =
        AList.update ''country_name'' (fillna (Str ''Unknown'') (Str (names ! i)))
          (AList.update ''campaign_type''
             (Str (if is_commercial_campaign L (cell_at (rows df ! i) ''campaign_name'')
                   then ''Commercial'' else ''Non-Commercial'')) (rows df ! i))"
      by (simp add: d2 assign_def len rows_add_campaign_type)
    then show "enriched (rows df ! i) (rows df2 ! i)"
      by (simp add: enriched_def untouched_update fillna_def notna_def is_str_def)
  qed
qed

text \<open>The date step: the rows whose date parses, each with its timestamp.\<close>

lemma parse_dates_rows:
  assumes "parse_dates L df2 = Inr df"
  shows "rows df =
           map (\<lambda>r. AList.update ''dispatched_at''
                      (coerce_datetime L (column_values ''dispatched_at'' df2) (cell_at r ''dispatched_at'')) r)
               (filter (parses L (rows df2)) (rows df2))"
    and "columns df = columns df2" and "has_column df2 ''dispatched_at''"
proof -
  let ?col = "column_values ''dispatched_at'' df2"
  let ?u = "\<lambda>r. AList.update ''dispatched_at'' (coerce_datetime L ?col (cell_at r ''dispatched_at'')) r"
  from assms have h: "has_column df2 ''dispatched_at''"
    and d: "df = dropna ''dispatched_at'' (assign ''dispatched_at'' (map (coerce_datetime L ?col) ?col) df2)"
    by (auto simp: parse_dates_def Let_def split: if_splits)
  show "has_column df2 ''dispatched_at''" by (rule h)
  show "columns df = columns df2"
    using h by (simp add: d columns_dropna assign_def has_column_def)
  have a: "rows (assign ''dispatched_at'' (map (coerce_datetime L ?col) ?col) df2) = map ?u (rows df2)"
    using assign_map[of "''dispatched_at''" "\<lambda>r. coerce_datetime L ?col (cell_at r ''dispatched_at'')" df2]
    by (simp add: column_values_def o_def)
  have p: "(\<lambda>r. notna (coerce_datetime L ?col (cell_at r ''dispatched_at''))) = parses L (rows df2)"
    by (rule ext)
       (auto simp: parses_def coerce_datetime_def notna_def column_values_def split: option.splits)
  show "rows df = map ?u (filter (parses L (rows df2)) (rows df2))"
    by (simp add: d rows_dropna a filter_map o_def p)
qed


lemma map_relabel_id: "map (relabel id) rs = rs"
  by (induction rs) (simp_all add: relabel_def)

lemma relabel_relabel: "relabel f (relabel g r) = relabel (f \<circ> g) r"
  by (simp add: relabel_def o_def split_def)

lemma rows_rename_columns:
  "rows (rename_columns m df) = map (relabel (rename_label m)) (rows df)"
  by (simp add: rename_columns_def relabel_def)

lemma apply_column_mapping_relabel:
  "\<exists>f. rows (apply_column_mapping df) = map (relabel f) (rows df)"
proof -
  have "\<exists>f. rows (fold (\<lambda>(old_col, new_col) d.
                 if old_col \<in> set (columns d) then rename_column old_col new_col d else d) ms df)
            = map (relabel f) (rows df)" for ms
  proof (induction ms arbitrary: df)
    case Nil
    have "rows df = map (relabel id) (rows df)" by (simp add: map_relabel_id)
    then show ?case by auto
  next
    case (Cons m ms)
    obtain old_col new_col where m: "m = (old_col, new_col)" by (cases m)
    let ?d = "if old_col \<in> set (columns df) then rename_column old_col new_col df else df"
    from Cons.IH[of ?d] obtain f where
      f: "rows (fold (\<lambda>(old_col, new_col) d.
                 if old_col \<in> set (columns d) then rename_column old_col new_col d else d) ms ?d)
          = map (relabel f) (rows ?d)" by blast
    have "\<exists>g. rows ?d = map (relabel g) (rows df)"
    proof (cases "old_col \<in> set (columns df)")
      case True
      then show ?thesis by (auto simp: rename_column_def rows_rename_columns)
    next
      case False
      have "rows df = map (relabel id) (rows df)" by (simp add: map_relabel_id)
      with False show ?thesis by auto
    qed
    then obtain g where g: "rows ?d = map (relabel g) (rows df)" by blast
    have "map (relabel f) (rows ?d) = map (relabel (f \<circ> g)) (rows df)"
      by (simp only: g map_map) (simp add: o_def relabel_relabel)
    with f show ?case unfolding m by (simp del: fold_simps add: fold_Cons) blast
  qed
  then show ?thesis by (simp add: apply_column_mapping_def)
qed

lemma find_campaign_column_relabel:
  assumes "find_campaign_column df = Inr d"
  shows "\<exists>f. rows d = map (relabel f) (rows df)"
proof (cases "''campaign_name'' \<in> set (columns df)")
  case True
  have "rows df = map (relabel id) (rows df)" by (simp add: map_relabel_id)
  with True assms show ?thesis by (auto simp: find_campaign_column_def)
next
  case False
  with assms show ?thesis
    by (auto simp: find_campaign_column_def rename_column_def rows_rename_columns
             split: list.splits)
qed

lemma map_filter_related:
  "list_all2 R xs ys \<Longrightarrow> (\<And>x y. R x y \<Longrightarrow> P x = Q y \<and> f x = g y) \<Longrightarrow>
   map f (filter P xs) = map g (filter Q ys)"
  by (induction rule: list_all2_induct) auto


lemma process_uploaded_file_steps:
  assumes "process_uploaded_file L cts = Inr df"
  obtains raw norm df2 where
    "read_csv L cts = Inr raw"
    "find_campaign_column (apply_column_mapping raw) = Inr norm"
    "add_country_name L (add_campaign_type L norm) = Inr df2"
    "parse_dates L df2 = Inr df"
  using assms by (auto simp: process_uploaded_file_def split: sum.splits)

lemma enriched_parses:
  assumes "list_all2 enriched xs ys" "enriched x y"
  shows "parses L xs x = parses L ys y"
proof -
  from assms(1) have "map (\<lambda>r. cell_at r ''dispatched_at'') xs = map (\<lambda>r. cell_at r ''dispatched_at'') ys"
    by (induction rule: list_all2_induct) (auto simp: enriched_def)
  with assms(2) show ?thesis by (simp add: parses_def enriched_def)
qed

lemma process_uploaded_file_rows:
  assumes "process_uploaded_file L cts = Inr df"
  shows "list_all valid_record (rows df)"
    and "\<exists>raw f. read_csv L cts = Inr raw \<and>
           map untouched (rows df) =
             map untouched (filter (parses L (map (relabel f) (rows raw)))
                                   (map (relabel f) (rows raw)))"
    and "canonical df"
proof -
  from assms obtain raw norm df2 where
    raw: "read_csv L cts = Inr raw"
    and norm: "find_campaign_column (apply_column_mapping raw) = Inr norm"
    and df2: "add_country_name L (add_campaign_type L norm) = Inr df2"
    and df: "parse_dates L df2 = Inr df"
    by (rule process_uploaded_file_steps)
  let ?col = "column_values ''dispatched_at'' df2"
  let ?u = "\<lambda>r. AList.update ''dispatched_at'' (coerce_datetime L ?col (cell_at r ''dispatched_at'')) r"
  note en = add_country_name_enriched(1)[OF df2]
  note rs = parse_dates_rows(1)[OF df]
  show valid: "list_all valid_record (rows df)"
    unfolding list_all_iff
  proof
    fix r assume "r \<in> set (rows df)"
    with rs obtain r2 where r2: "r2 \<in> set (rows df2)" "parses L (rows df2) r2" "r = ?u r2"
      by auto
    from en r2(1) obtain rn where "enriched rn r2"
      by (auto simp: list_all2_conv_all_nth in_set_conv_nth)
    moreover from r2(2) obtain t where
      "coerce_datetime L ?col (cell_at r2 ''dispatched_at'') = Timestamp t"
      by (auto simp: parses_def coerce_datetime_def column_values_def)
    ultimately show "valid_record r"
      by (simp add: r2(3) valid_record_def enriched_def is_timestamp_def)
  qed
  from apply_column_mapping_relabel[of raw] obtain g where
    g: "rows (apply_column_mapping raw) = map (relabel g) (rows raw)" by blast
  from find_campaign_column_relabel[OF norm] obtain h where
    h: "rows norm = map (relabel h) (rows (apply_column_mapping raw))" by blast
  have n: "rows norm = map (relabel (h \<circ> g)) (rows raw)"
    by (simp only: h g map_map) (simp add: o_def relabel_relabel)
  have "map untouched (rows df) = map untouched (filter (parses L (rows df2)) (rows df2))"
    by (simp add: rs o_def untouched_update)
  also have "\<dots> = map untouched (filter (parses L (rows norm)) (rows norm))"
  proof (rule sym, rule map_filter_related[OF en])
    fix x y assume "enriched x y"
    with enriched_parses[OF en this, of L]
    show "parses L (rows norm) x = parses L (rows df2) y \<and> untouched x = untouched y"
      by (simp add: enriched_def)
  qed
  finally show "\<exists>raw f. read_csv L cts = Inr raw \<and>
           map untouched (rows df) =
             map untouched (filter (parses L (map (relabel f) (rows raw)))
                                   (map (relabel f) (rows raw)))"
    using raw n by auto
  have cols: "set (columns df) = insert ''country_name'' (insert ''campaign_type'' (set (columns norm)))"
    using add_country_name_enriched(2)[OF df2] parse_dates_rows(2)[OF df] by simp
  have "has_column df ''dispatched_at''"
    using parse_dates_rows(2,3)[OF df] by (simp add: has_column_def)
  moreover have "list_all (\<lambda>r. is_datetime_cell (cell_at r ''dispatched_at'')) (rows df)"
    using valid
    by (auto simp: list_all_iff valid_record_def is_timestamp_def is_datetime_cell_def
             split: cell.splits)
  ultimately show "canonical df"
    using cols by (simp add: canonical_def has_column_def)
qed




lemma canonical_filter: "canonical df \<Longrightarrow> canonical (df\<lparr>rows := filter P (rows df)\<rparr>)"
  by (simp add: canonical_def list_all_iff)

lemma update_content_keeps_data:
  assumes "takeWhile (\<lambda>c. c \<noteq> CHR ''.'') p \<noteq> ''upload-data''"
  shows "snd (update_content L data (req\<lparr>triggered := p # ps\<rparr>)) = data"
  using assms
  by (auto simp: update_content_def Let_def split: option.splits sum.splits)

text \<open>
  Claim C6. On every dataset that an upload leaves in the slot, the Filter Engine returns
  the records that pass every filter, in their order (an absent or empty filter, and a
  date range without both ends, pass every record). Filtering by country and then by
  campaign type in a second call gives what one call with both filters gives. A filter
  request leaves the dataset in the slot as it was.
\<close>

theorem filter_engine_contract:
  assumes "process_uploaded_file L cts = Inr df"
  shows "apply_filters df fc ft sd ed =
           Inr (df\<lparr>rows := filter (\<lambda>r. passes_isin ''country_name'' fc r \<and>
                                        passes_isin ''campaign_type'' ft r \<and>
                                        passes_date sd ed r) (rows df)\<rparr>) \<and>
         (\<exists>d1. apply_filters df fc None None None = Inr d1 \<and>
               apply_filters d1 None ft None None = apply_filters df fc ft None None) \<and>
         (takeWhile (\<lambda>c. c \<noteq> CHR ''.'') p \<in>
            set [''filter-button'', ''filter-country'', ''filter-campaign-type'', ''filter-date'']
          \<longrightarrow> snd (update_content L (Some df) (req\<lparr>triggered := p # ps\<rparr>)) = Some df)"
proof -
  have c: "canonical df" by (rule process_uploaded_file_rows(3)[OF assms])
  have none: "passes_isin col None r" "passes_date None None r" for col r
    by (simp_all add: passes_isin_def passes_date_def)
  let ?d1 = "df\<lparr>rows := filter (passes_isin ''country_name'' fc) (rows df)\<rparr>"
  have 1: "apply_filters df fc None None None = Inr ?d1"
    by (simp add: apply_filters_rows[OF c] none)
  have "apply_filters ?d1 None ft None None =
          Inr (?d1\<lparr>rows := filter (passes_isin ''campaign_type'' ft) (rows ?d1)\<rparr>)"
    by (simp add: apply_filters_rows[OF canonical_filter[OF c]] none)
  also have "\<dots> = apply_filters df fc ft None None"
    by (simp add: apply_filters_rows[OF c] none conj_commute)
  finally have 2: "apply_filters ?d1 None ft None None = apply_filters df fc ft None None" .
  have 3: "snd (update_content L (Some df) (req\<lparr>triggered := p # ps\<rparr>)) = Some df"
    if "takeWhile (\<lambda>c. c \<noteq> CHR ''.'') p \<in>
            set [''filter-button'', ''filter-country'', ''filter-campaign-type'', ''filter-date'']"
    by (rule update_content_keeps_data) (use that in auto)
  from 1 2 3 show ?thesis
    by (simp only: apply_filters_rows[OF c]) blast
qed

theorem filter_engine_contract_witness:
  "process_uploaded_file example_libs ''full'' = Inr full_data \<and>
   apply_filters full_data (Some [''Unknown'']) (Some [''Non-Commercial'']) (Some 19725) (Some 19725) =
     Inr (full_data\<lparr>rows := [rows full_data ! 2]\<rparr>) \<and>
   snd (update_content example_libs (Some full_data)
          (request_of ''filter-button.n_clicks'' None ''data-table-tab'')) = Some full_data"
proof -
  have e: "filter (\<lambda>r. passes_isin ''country_name'' (Some [''Unknown'']) r \<and>
                       passes_isin ''campaign_type'' (Some [''Non-Commercial'']) r \<and>
                       passes_date (Some 19725) (Some 19725) r) (rows full_data) =
           [rows full_data ! 2]"
    by code_simp
  have r: "request_of ''filter-button.n_clicks'' None ''data-table-tab'' =
           (request_of ''filter-button.n_clicks'' None ''data-table-tab'')
             \<lparr>triggered := ''filter-button.n_clicks'' # []\<rparr>"
    by (simp add: request_of_def)
  have t: "takeWhile (\<lambda>c. c \<noteq> CHR ''.'') ''filter-button.n_clicks'' \<in>
            set [''filter-button'', ''filter-country'', ''filter-campaign-type'', ''filter-date'']"
    by simp
  from filter_engine_contract[OF upload_full,
      where fc = "Some [''Unknown'']" and ft = "Some [''Non-Commercial'']"
        and sd = "Some 19725" and ed = "Some 19725" and p = "''filter-button.n_clicks''"
        and req = "request_of ''filter-button.n_clicks'' None ''data-table-tab''" and ps = "[]"]
  show ?thesis
    unfolding e using r t upload_full by simp
qed

section \<open>Cost Analysis\<close>

lemma groupby_count_Inr:
  assumes "groupby_count by cs df = Inr g"
  shows "g = \<lparr>columns = by # cs,
              rows = map (\<lambda>k. (by, k) #
                            map (\<lambda>c. (c, Num (of_nat (count_col c (group_rows by k (rows df)))))) cs)
                         (group_keys by (rows df))\<rparr>"
  using assms by (auto simp: groupby_count_def split: if_splits list.splits)

lemma cost_frame_rows:
  assumes "cost_frame L df = Inr cf"
  shows "rows cf =
           map (cost_group_row (non_commercial_rows df))
               (group_keys ''campaign_name'' (non_commercial_rows df)) @
           [[(''campaign_name'', Str ''Total''),
             (''Delivered Messages'',
                Num (int_sum_col ''Delivered Messages''
                      (map (cost_group_row (non_commercial_rows df))
                           (group_keys ''campaign_name'' (non_commercial_rows df))))),
             (''Cost (USD)'',
                Num (float_sum_col L ''Cost (USD)''
                      (map (cost_group_row (non_commercial_rows df))
                           (group_keys ''campaign_name'' (non_commercial_rows df)))))]]"
proof -
  let ?nc = "df\<lparr>rows := filter (\<lambda>r. cell_at r ''campaign_type'' = Str ''Non-Commercial'') (rows df)\<rparr>"
  from assms obtain g where g: "groupby_count ''campaign_name'' [''delivered_at''] ?nc = Inr g"
    by (auto simp: cost_frame_def Let_def split: if_splits sum.splits)
  note gd = groupby_count_Inr[OF g]
  let ?cost_df = "rename_columns [(''delivered_at'', ''Delivered Messages'')]
                    (assign ''Cost (USD)''
                       (map (\<lambda>v. float_times v (double (4 / 100))) (column_values ''delivered_at'' g)) g)"
  have rg: "rows g =
      map (\<lambda>k. [(''campaign_name'', k),
                (''delivered_at'', Num (of_nat (delivered_messages (non_commercial_rows df) k)))])
          (group_keys ''campaign_name'' (non_commercial_rows df))"
    by (subst gd) (simp add: delivered_messages_def non_commercial_rows_def)
  have ra: "rows (assign ''Cost (USD)''
                   (map (\<lambda>v. float_times v (double (4 / 100))) (column_values ''delivered_at'' g)) g) =
            map (\<lambda>r. AList.update ''Cost (USD)''
                        (float_times (cell_at r ''delivered_at'') (double (4 / 100))) r)
                (rows g)"
    using assign_map[of "''Cost (USD)''"
            "\<lambda>r. float_times (cell_at r ''delivered_at'') (double (4 / 100))" g]
    by (simp add: column_values_def o_def)
  have r: "rows ?cost_df =
             map (cost_group_row (non_commercial_rows df))
                 (group_keys ''campaign_name'' (non_commercial_rows df))"
    unfolding rename_columns_def dataframe.simps ra rg
    by (simp add: o_def cost_group_row_def cost_of_def rename_label_def float_times_def cell_at_def)
  from assms g have "cf = ?cost_df\<lparr>rows := rows ?cost_df @
        [[(''campaign_name'', Str ''Total''),
          (''Delivered Messages'', Num (int_sum_col ''Delivered Messages'' (rows ?cost_df))),
          (''Cost (USD)'', Num (float_sum_col L ''Cost (USD)'' (rows ?cost_df)))]]\<rparr>"
    by (auto simp: cost_frame_def Let_def split: if_splits)
  then have "rows cf = rows ?cost_df @
        [[(''campaign_name'', Str ''Total''),
          (''Delivered Messages'', Num (int_sum_col ''Delivered Messages'' (rows ?cost_df))),
          (''Cost (USD)'', Num (float_sum_col L ''Cost (USD)'' (rows ?cost_df)))]]"
    by simp
  then show ?thesis unfolding r .
qed

lemma sum_col_cost_rows:
  "int_sum_col ''Delivered Messages'' (map (cost_group_row rs) ks) =
     of_nat (sum_list (map (delivered_messages rs) ks))"
  "float_sum_col L ''Cost (USD)'' (map (cost_group_row rs) ks) =
     series_sum L (map (\<lambda>k. cost_of (delivered_messages rs k)) ks)"
proof -
  show "int_sum_col ''Delivered Messages'' (map (cost_group_row rs) ks) =
          of_nat (sum_list (map (delivered_messages rs) ks))"
    by (induction ks) (simp_all add: int_sum_col_def cost_group_row_def cell_at_def num_of_def)
  have "map (\<lambda>r. num_of (cell_at r ''Cost (USD)'')) (map (cost_group_row rs) ks) =
        map (\<lambda>k. cost_of (delivered_messages rs k)) ks"
    by (simp add: cost_group_row_def cell_at_def num_of_def)
  then show "float_sum_col L ''Cost (USD)'' (map (cost_group_row rs) ks) =
               series_sum L (map (\<lambda>k. cost_of (delivered_messages rs k)) ks)"
    by (simp only: float_sum_col_def)
qed

lemma cost_frame_columns:
  assumes "cost_frame L df = Inr cf"
  shows "columns cf = [''campaign_name'', ''Delivered Messages'', ''Cost (USD)'']"
proof -
  let ?nc = "df\<lparr>rows := filter (\<lambda>r. cell_at r ''campaign_type'' = Str ''Non-Commercial'') (rows df)\<rparr>"
  from assms obtain g where g: "groupby_count ''campaign_name'' [''delivered_at''] ?nc = Inr g"
    by (auto simp: cost_frame_def Let_def split: if_splits sum.splits)
  have "columns g = [''campaign_name'', ''delivered_at'']"
    by (subst groupby_count_Inr[OF g]) simp
  with assms g show ?thesis
    by (auto simp: cost_frame_def Let_def rename_columns_def assign_def rename_label_def
             split: if_splits)
qed

text \<open>The Cost Analysis is produced for every dataset with the three columns it reads.\<close>

lemma cost_frame_Inr:
  assumes "has_column df ''campaign_type''" and "has_column df ''campaign_name''"
    and "has_column df ''delivered_at''"
  shows "\<exists>cf. cost_frame L df = Inr cf"
  using assms by (simp add: cost_frame_def groupby_count_def has_column_def Let_def)

lemma cost_table_of_frame:
  assumes "cost_frame L df = Inr cf"
  shows "create_cost_analysis_table L df =
           Inr (DataTable ''cost-table'' (columns cf)
                  (map (\<lambda>r. AList.update ''Cost (USD)'' (format_cost (cell_at r ''Cost (USD)'')) r)
                       (rows cf)))"
proof -
  have "rows (assign ''Cost (USD)'' (map format_cost (column_values ''Cost (USD)'' cf)) cf) =
        map (\<lambda>r. AList.update ''Cost (USD)'' (format_cost (cell_at r ''Cost (USD)'')) r) (rows cf)"
    using assign_map[of "''Cost (USD)''" "\<lambda>r. format_cost (cell_at r ''Cost (USD)'')" cf]
    by (simp add: column_values_def o_def)
  moreover have "columns (assign ''Cost (USD)'' (map format_cost (column_values ''Cost (USD)'' cf)) cf)
                 = columns cf"
    by (simp add: assign_def cost_frame_columns[OF assms])
  ultimately show ?thesis
    by (simp add: create_cost_analysis_table_def assms Let_def)
qed

text \<open>
  Double arithmetic on the numbers of the examples: 0.04, 0.2, 0.24 and the double after
  0.24, each written as the fraction it is.
\<close>

lemma double_zero: "double 0 = 0"
  by (simp add: double_def)

lemma double_literal: "double (4 / 100) = 5764607523034235 / 144115188075855872"
  by code_simp

lemma double_counts: "double 1 = 1" "double 5 = 5" "double 6 = 6"
  by code_simp+

lemma double_products:
  "double (1 * (5764607523034235 / 144115188075855872)) = 5764607523034235 / 144115188075855872"
  "double (5 * (5764607523034235 / 144115188075855872)) = 3602879701896397 / 18014398509481984"
  "double (6 * (5764607523034235 / 144115188075855872)) = 1080863910568919 / 4503599627370496"
  by code_simp+

lemma double_sums:
  "double (5764607523034235 / 144115188075855872) = 5764607523034235 / 144115188075855872"
  "double (5764607523034235 / 144115188075855872 + 0) = 5764607523034235 / 144115188075855872"
  "double (5764607523034235 / 144115188075855872 + 3602879701896397 / 18014398509481984) = 8646911284551353 / 36028797018963968"
  by code_simp+

lemma cost_of_examples:
  "cost_of 0 = 0" "cost_of 1 = 5764607523034235 / 144115188075855872" "cost_of 5 = 3602879701896397 / 18014398509481984"
proof -
  show "cost_of 0 = 0" by (simp add: cost_of_def double_zero)
  show "cost_of 1 = 5764607523034235 / 144115188075855872"
    unfolding cost_of_def of_nat_1 double_counts double_literal by (rule double_products)
  show "cost_of 5 = 3602879701896397 / 18014398509481984"
    unfolding cost_of_def of_nat_numeral double_counts double_literal by (rule double_products)
qed

lemma sequential_sum_two: "sequential_sum [a, b] = double (double a + b)"
  by (simp add: sequential_sum_def)

lemma format_cost_examples:
  "format_cost (Num 0) = Str ''$0.00''"
  "format_cost (Num (5764607523034235 / 144115188075855872)) = Str ''$0.04''"
  "format_cost (Num (3602879701896397 / 18014398509481984)) = Str ''$0.20''"
  "format_cost (Num (8646911284551353 / 36028797018963968)) = Str ''$0.24''"
  "format_cost (Num (1080863910568919 / 4503599627370496)) = Str ''$0.24''"
  by code_simp+

text \<open>The cost frame of the first example dataset.\<close>

lemma cost_frame_full_data:
  "cost_frame example_libs full_data =
     Inr \<lparr>columns = [''campaign_name'', ''Delivered Messages'', ''Cost (USD)''],
          rows = [[(''campaign_name'', Str ''Spring News''), (''Delivered Messages'', Num 1),
                   (''Cost (USD)'', Num (5764607523034235 / 144115188075855872))],
                  [(''campaign_name'', Str ''Winter Sale''), (''Delivered Messages'', Num 0),
                   (''Cost (USD)'', Num 0)],
                  [(''campaign_name'', Str ''Total''), (''Delivered Messages'', Num 1),
                   (''Cost (USD)'', Num (5764607523034235 / 144115188075855872))]]\<rparr>"
proof -
  have "has_column full_data ''campaign_type''" "has_column full_data ''campaign_name''"
    "has_column full_data ''delivered_at''"
    by code_simp+
  then obtain cf where cf: "cost_frame example_libs full_data = Inr cf"
    using cost_frame_Inr by blast
  have k: "group_keys ''campaign_name'' (non_commercial_rows full_data) =
             [Str ''Spring News'', Str ''Winter Sale'']"
    by code_simp
  have d: "delivered_messages (non_commercial_rows full_data) (Str ''Spring News'') = 1"
    "delivered_messages (non_commercial_rows full_data) (Str ''Winter Sale'') = 0"
    by code_simp+
  have s: "series_sum example_libs [5764607523034235 / 144115188075855872, 0] = 5764607523034235 / 144115188075855872"
    by (simp only: example_libs_def libs.simps sequential_sum_two double_sums)
  have "rows cf = [[(''campaign_name'', Str ''Spring News''), (''Delivered Messages'', Num 1),
                   (''Cost (USD)'', Num (5764607523034235 / 144115188075855872))],
                  [(''campaign_name'', Str ''Winter Sale''), (''Delivered Messages'', Num 0),
                   (''Cost (USD)'', Num 0)],
                  [(''campaign_name'', Str ''Total''), (''Delivered Messages'', Num 1),
                   (''Cost (USD)'', Num (5764607523034235 / 144115188075855872))]]"
    unfolding cost_frame_rows[OF cf, unfolded sum_col_cost_rows]
    unfolding k list.map cost_group_row_def d cost_of_examples s
    by simp
  with cost_frame_columns[OF cf] cf show ?thesis by simp
qed





section \<open>Country Analysis\<close>

lemma groupby_count_Inr2:
  assumes "groupby_count by cs df = Inr g"
  shows "rows g = map (\<lambda>k. (by, k) #
                            map (\<lambda>c. (c, Num (of_nat (count_col c (group_rows by k (rows df)))))) cs)
                         (group_keys by (rows df))"
    and "columns g = by # cs"
  using groupby_count_Inr[OF assms] by simp_all

lemma rows_assign_rows:
  "rows (assign c (map f (rows df)) df) = map (\<lambda>r. AList.update c (f r) r) (rows df)"
  by (rule assign_map)

lemma rows_assign_column:
  "rows (assign c (map f (column_values c' df)) df) =
     map (\<lambda>r. AList.update c (f (cell_at r c')) r) (rows df)"
  using assign_map[of c "\<lambda>r. f (cell_at r c')" df] by (simp add: column_values_def o_def)

lemma rows_rename_columns2:
  "rows (rename_columns m df) = map (map (\<lambda>(c, v). (rename_label m c, v))) (rows df)"
  by (simp add: rename_columns_def)

lemma country_frame_rows:
  assumes "country_frame df = Inr g"
  shows "rows g = map (country_row (rows df)) (group_keys ''country_name'' (rows df))"
proof -
  from assms obtain g0 where
    g0: "groupby_count ''country_name''
           [''dispatched_at'', ''delivered_at'', ''read_at'', ''button_clicks'', ''link_clicks''] df = Inr g0"
    by (auto simp: country_frame_def split: sum.splits)
  note r0 = groupby_count_Inr2(1)[OF g0]
  define g1 where "g1 = assign ''Delivery Rate''
                      (map (\<lambda>r. rate r ''delivered_at'' ''dispatched_at'') (rows g0)) g0"
  define g2 where "g2 = assign ''Read Rate''
                      (map (\<lambda>r. rate r ''read_at'' ''delivered_at'') (rows g1)) g1"
  define g3 where "g3 = rename_columns
                      [(''country_name'', ''Country''),
                       (''dispatched_at'', ''Dispatched''),
                       (''delivered_at'', ''Delivered''),
                       (''read_at'', ''Read''),
                       (''button_clicks'', ''Button Clicks''),
                       (''link_clicks'', ''Link Clicks'')] g2"
  define g4 where "g4 = assign ''Delivery Rate''
                      (map format_percent (column_values ''Delivery Rate'' g3)) g3"
  define g5 where "g5 = assign ''Read Rate''
                      (map format_percent (column_values ''Read Rate'' g4)) g4"
  from assms have g: "g = g5"
    by (simp add: country_frame_def g0 Let_def g1_def g2_def g3_def g4_def g5_def)
  define row0 where "row0 = (\<lambda>k. (''country_name'', k) #
                            map (\<lambda>c. (c, Num (of_nat (count_col c (group_rows ''country_name'' k (rows df))))))
                              [''dispatched_at'', ''delivered_at'', ''read_at'', ''button_clicks'', ''link_clicks''])"
  define u1 where "u1 = (\<lambda>r. AList.update ''Delivery Rate'' (rate r ''delivered_at'' ''dispatched_at'') r)"
  define u2 where "u2 = (\<lambda>r. AList.update ''Read Rate'' (rate r ''read_at'' ''delivered_at'') r)"
  define u3 where "u3 = map (\<lambda>(c, v). (rename_label
                      [(''country_name'', ''Country''),
                       (''dispatched_at'', ''Dispatched''),
                       (''delivered_at'', ''Delivered''),
                       (''read_at'', ''Read''),
                       (''button_clicks'', ''Button Clicks''),
                       (''link_clicks'', ''Link Clicks'')] c, v :: cell))"
  define u4 where "u4 = (\<lambda>r. AList.update ''Delivery Rate'' (format_percent (cell_at r ''Delivery Rate'')) r)"
  define u5 where "u5 = (\<lambda>r. AList.update ''Read Rate'' (format_percent (cell_at r ''Read Rate'')) r)"
  have r0': "rows g0 = map row0 (group_keys ''country_name'' (rows df))"
    by (simp add: r0 row0_def)
  have r1: "rows g1 = map u1 (rows g0)"
    unfolding g1_def u1_def by (rule assign_map)
  have r2: "rows g2 = map u2 (rows g1)"
    unfolding g2_def u2_def by (rule assign_map)
  have r3: "rows g3 = map u3 (rows g2)"
    unfolding g3_def u3_def by (rule rows_rename_columns2)
  have r4: "rows g4 = map u4 (rows g3)"
    unfolding g4_def u4_def by (rule rows_assign_column)
  have r5: "rows g5 = map u5 (rows g4)"
    unfolding g5_def u5_def by (rule rows_assign_column)
  have one: "u5 (u4 (u3 (u2 (u1 (row0 k))))) = country_row (rows df) k" for k
    by (simp add: row0_def u1_def u2_def u3_def u4_def u5_def rate_def rename_label_def
          cell_at_def country_row_def percent_cell_def)
  have "rows g = map (\<lambda>k. u5 (u4 (u3 (u2 (u1 (row0 k)))))) (group_keys ''country_name'' (rows df))"
    by (simp add: g r5 r4 r3 r2 r1 r0' o_def)
  then show ?thesis by (simp add: one)
qed

lemma country_frame_columns:
  assumes "country_frame df = Inr g"
  shows "columns g = [''Country'', ''Dispatched'', ''Delivered'', ''Read'', ''Button Clicks'',
                      ''Link Clicks'', ''Delivery Rate'', ''Read Rate'']"
proof -
  from assms obtain g0 where
    g0: "groupby_count ''country_name''
           [''dispatched_at'', ''delivered_at'', ''read_at'', ''button_clicks'', ''link_clicks''] df = Inr g0"
    by (auto simp: country_frame_def split: sum.splits)
  note c0 = groupby_count_Inr2(2)[OF g0]
  from assms show ?thesis
    by (auto simp: country_frame_def g0 Let_def assign_def rename_columns_def c0 rename_label_def)
qed


lemma country_frame_total:
  assumes "list_all (has_column df)
             [''country_name'', ''dispatched_at'', ''delivered_at'', ''read_at'',
              ''button_clicks'', ''link_clicks'']"
  shows "\<exists>g. country_frame df = Inr g"
  using assms by (simp add: country_frame_def groupby_count_def Let_def)

lemma digit_char_simps:
  "digit_char 0 = CHR ''0''" "digit_char 1 = CHR ''1''" "digit_char 2 = CHR ''2''"
  "digit_char 3 = CHR ''3''" "digit_char 4 = CHR ''4''" "digit_char 5 = CHR ''5''"
  "digit_char 6 = CHR ''6''" "digit_char 7 = CHR ''7''" "digit_char 8 = CHR ''8''"
  "digit_char 9 = CHR ''9''" "digit_char (Suc 0) = CHR ''1''"
  by code_simp+

lemmas percent_defs = percent_cell_def format_percent_def round2_def times_cell_def true_divide_def
  round_half_even_def float_str_def show_nat.simps digit_char_simps Let_def

text \<open>A rate whose denominator is zero: what the division leaves is printed as it is.\<close>

lemma percent_cell_zero:
  "percent_cell a 0 = (if a = 0 then Str ''nan%'' else Str ''inf%'')"
  by (simp add: percent_cell_def format_percent_def round2_def times_cell_def true_divide_def)

lemma percent_cell_examples:
  "percent_cell 0 1 = Str ''0.0%''" "percent_cell 1 1 = Str ''100.0%''"
  "percent_cell 0 (Suc 0) = Str ''0.0%''" "percent_cell (Suc 0) (Suc 0) = Str ''100.0%''"
  by (simp_all add: percent_defs)

lemma country_frame_full_data: "country_frame full_data = Inr country_example"
proof -
  have "list_all (has_column full_data)
             [''country_name'', ''dispatched_at'', ''delivered_at'', ''read_at'',
              ''button_clicks'', ''link_clicks'']"
    by code_simp
  from country_frame_total[OF this] obtain g where g: "country_frame full_data = Inr g" by blast
  have k: "group_keys ''country_name'' (rows full_data) =
           [Str ''United Kingdom'', Str ''United States'', Str ''Unknown'']"
    by code_simp
  have "map (\<lambda>k. map (\<lambda>c. count_col c (group_rows ''country_name'' k (rows full_data)))
                    [''dispatched_at'', ''delivered_at'', ''read_at'', ''button_clicks'', ''link_clicks''])
            [Str ''United Kingdom'', Str ''United States'', Str ''Unknown''] =
        [[1, 0, 0, 0, 0], [1, 1, 1, 1, 0], [1, 1, 0, 0, 0]]"
    by code_simp
  note c = this[simplified]
  have "map (country_row (rows full_data)) (group_keys ''country_name'' (rows full_data)) =
        rows country_example"
    unfolding k by (simp add: country_row_def c percent_cell_zero percent_cell_examples country_example_def)
  with country_frame_rows[OF g] have "rows g = rows country_example" by simp
  moreover have "columns g = columns country_example"
    by (simp add: country_frame_columns[OF g] country_example_def)
  ultimately have "g = country_example" by simp
  with g show ?thesis by simp
qed


lemma country_table_full_data:
  "create_country_analysis_table L full_data =
     Inr (DataTable ''country-table'' (columns country_example)
            (map (\<lambda>i. rows country_example ! i) (nargsort_desc L [1, 1, 1])))"
proof -
  have "map (\<lambda>r. num_of (cell_at r ''Dispatched'')) (rows country_example) = [1, 1, 1]"
    by code_simp
  then show ?thesis
    by (simp add: create_country_analysis_table_def country_frame_full_data sort_values_desc_def
          Let_def)
qed

lemma nargsort_examples:
  "stable_nargsort_desc [1, 1, 1] = [0, 1, 2]"
  by code_simp













text \<open>
  Claim C1 fails on the code at the first example. No message to the United Kingdom was
  delivered, so its Read Rate divides zero by zero; the cell shown is \<open>nan%\<close>, which is
  neither of the two conventions.
\<close>

theorem read_rate_of_undelivered_country:
  "create_country_analysis_table example_libs full_data =
     Inr (DataTable ''country-table'' (columns country_example) (rows country_example)) \<and>
   cell_at (rows country_example ! 0) ''Country'' = Str ''United Kingdom'' \<and>
   cell_at (rows country_example ! 0) ''Delivered'' = Num 0 \<and>
   cell_at (rows country_example ! 0) ''Read Rate'' = Str ''nan%''"
proof -
  have n: "nargsort_desc example_libs = stable_nargsort_desc"
    by (simp add: example_libs_def)
  have "map (\<lambda>i. rows country_example ! i) [0, 1, 2] = rows country_example"
    by (simp add: country_example_def)
  then have "create_country_analysis_table example_libs full_data =
     Inr (DataTable ''country-table'' (columns country_example) (rows country_example))"
    by (simp only: country_table_full_data n nargsort_examples)
  moreover have "cell_at (rows country_example ! 0) ''Country'' = Str ''United Kingdom''"
    "cell_at (rows country_example ! 0) ''Delivered'' = Num 0"
    "cell_at (rows country_example ! 0) ''Read Rate'' = Str ''nan%''"
    by code_simp+
  ultimately show ?thesis by simp
qed

section \<open>Country Resolver\<close>

lemma get_country_name_parsed:
  "phonenumbers_parse L (with_plus s) = Inr n \<Longrightarrow>
   get_country_name L s =
     (case region_code_for_number L n of
        None \<Rightarrow> Inr ''Unknown''
      | Some cc \<Rightarrow>
          if cc = [] then Inr ''Unknown''
          else (case lookup_country L cc of Inl NumberParseException \<Rightarrow> Inr ''Unknown'' | other \<Rightarrow> other))"
  by (auto simp: get_country_name_def Let_def split: option.splits sum.splits error.splits)

text \<open>
  Claim C3, as amended. The Country Resolver returns \<open>Unknown\<close> when parsing raises
  \<^verbatim>\<open>NumberParseException\<close> and when the parsed number has no region code. For a region
  code it returns the name of the country found; when no country is found it returns
  the region code itself; when the lookup raises \<^verbatim>\<open>AttributeError\<close> it returns the
  entry of the special-cases table, or the region code when there is none. It returns a
  string, and raises nothing, whenever the libraries raise nothing but these two
  exceptions.
\<close>

theorem country_resolver_results:
  "(phonenumbers_parse L (with_plus s) = Inl NumberParseException \<longrightarrow>
      get_country_name L s = Inr ''Unknown'') \<and>
   (\<forall>n. phonenumbers_parse L (with_plus s) = Inr n \<longrightarrow>
      (region_code_for_number L n = None \<or> region_code_for_number L n = Some [] \<longrightarrow>
         get_country_name L s = Inr ''Unknown'') \<and>
      (\<forall>cc. region_code_for_number L n = Some cc \<and> cc \<noteq> [] \<longrightarrow>
         (\<forall>name. countries_get L cc = Inr (Some name) \<longrightarrow> get_country_name L s = Inr name) \<and>
         (countries_get L cc = Inr None \<longrightarrow> get_country_name L s = Inr cc) \<and>
         (\<forall>m. countries_get L cc = Inl (AttributeError m) \<longrightarrow>
            get_country_name L s =
              Inr (case map_of special_cases cc of Some name \<Rightarrow> name | None \<Rightarrow> cc)))) \<and>
   ((\<forall>err. phonenumbers_parse L (with_plus s) = Inl err \<longrightarrow> err = NumberParseException) \<and>
    (\<forall>cc err. countries_get L cc = Inl err \<longrightarrow> (\<exists>m. err = AttributeError m)) \<longrightarrow>
      (\<exists>name. get_country_name L s = Inr name))"
proof (intro conjI allI impI)
  assume "phonenumbers_parse L (with_plus s) = Inl NumberParseException"
  then show "get_country_name L s = Inr ''Unknown''"
    by (simp add: get_country_name_def)
next
  fix n
  assume "phonenumbers_parse L (with_plus s) = Inr n"
    and "region_code_for_number L n = None \<or> region_code_for_number L n = Some []"
  then show "get_country_name L s = Inr ''Unknown''"
    by (auto simp: get_country_name_parsed)
next
  fix n cc name
  assume "phonenumbers_parse L (with_plus s) = Inr n"
    and "region_code_for_number L n = Some cc \<and> cc \<noteq> []"
    and "countries_get L cc = Inr (Some name)"
  then show "get_country_name L s = Inr name"
    by (simp add: get_country_name_parsed lookup_country_def)
next
  fix n cc
  assume "phonenumbers_parse L (with_plus s) = Inr n"
    and "region_code_for_number L n = Some cc \<and> cc \<noteq> []"
    and "countries_get L cc = Inr None"
  then show "get_country_name L s = Inr cc"
    by (simp add: get_country_name_parsed lookup_country_def)
next
  fix n cc m
  assume "phonenumbers_parse L (with_plus s) = Inr n"
    and "region_code_for_number L n = Some cc \<and> cc \<noteq> []"
    and "countries_get L cc = Inl (AttributeError m)"
  then show "get_country_name L s =
              Inr (case map_of special_cases cc of Some name \<Rightarrow> name | None \<Rightarrow> cc)"
    by (simp add: get_country_name_parsed lookup_country_def)
next
  assume a: "(\<forall>err. phonenumbers_parse L (with_plus s) = Inl err \<longrightarrow> err = NumberParseException) \<and>
    (\<forall>cc err. countries_get L cc = Inl err \<longrightarrow> (\<exists>m. err = AttributeError m))"
  have l: "\<exists>name. lookup_country L cc = Inr name" for cc
  proof (cases "countries_get L cc")
    case (Inl err)
    with a obtain m where "err = AttributeError m" by blast
    with Inl show ?thesis by (simp add: lookup_country_def)
  next
    case (Inr found)
    then show ?thesis by (cases found) (simp_all add: lookup_country_def)
  qed
  show "\<exists>name. get_country_name L s = Inr name"
  proof (cases "phonenumbers_parse L (with_plus s)")
    case (Inl err)
    with a have "err = NumberParseException" by blast
    with Inl show ?thesis by (simp add: get_country_name_def)
  next
    case (Inr n)
    show ?thesis
    proof (cases "region_code_for_number L n")
      case None
      with Inr show ?thesis by (simp add: get_country_name_parsed)
    next
      case (Some cc)
      from l[of cc] obtain name where "lookup_country L cc = Inr name" by blast
      with Inr Some show ?thesis by (simp add: get_country_name_parsed)
    qed
  qed
qed

lemma example_resolver_facts:
  "phonenumbers_parse example_libs (with_plus ''38344123456'') = Inr (383, 44123456)"
  "region_code_for_number example_libs (383, 44123456) = Some ''XK''"
  "countries_get example_libs ''XK'' = Inr None"
  "phonenumbers_parse example_libs (with_plus ''no phone'') = Inl NumberParseException"
  by (simp_all add: example_libs_def with_plus_def)

theorem country_resolver_results_witness:
  "phonenumbers_parse example_libs (with_plus ''no phone'') = Inl NumberParseException \<and>
   get_country_name example_libs ''no phone'' = Inr ''Unknown'' \<and>
   phonenumbers_parse example_libs (with_plus ''38344123456'') = Inr (383, 44123456) \<and>
   region_code_for_number example_libs (383, 44123456) = Some ''XK'' \<and>
   countries_get example_libs ''XK'' = Inr None \<and>
   get_country_name example_libs ''38344123456'' = Inr ''XK''"
proof -
  from country_resolver_results[of example_libs "''no phone''"] example_resolver_facts(4)
  have 1: "get_country_name example_libs ''no phone'' = Inr ''Unknown''" by blast
  have "''XK'' \<noteq> []" by simp
  with country_resolver_results[of example_libs "''38344123456''"] example_resolver_facts(1-3)
  have 2: "get_country_name example_libs ''38344123456'' = Inr ''XK''" by blast
  from 1 2 example_resolver_facts show ?thesis by simp
qed

text \<open>
  Claim C3 as stated fails. The number 383 44 123 456 parses, its region code \<open>XK\<close> has no
  entry in the country table and none in the special-cases table, and the resolver returns
  \<open>XK\<close>, not \<open>Unknown\<close>.
\<close>

theorem unmapped_region_counterexample:
  "countries_get example_libs ''XK'' = Inr None \<and>
   map_of special_cases ''XK'' = None \<and>
   get_country_name example_libs ''38344123456'' = Inr ''XK'' \<and>
   get_country_name example_libs ''38344123456'' \<noteq> Inr ''Unknown''"
  by (simp add: example_libs_def special_cases_def get_country_name_def with_plus_def
        lookup_country_def)

section \<open>The callback\<close>

lemma upload_fails_in_processing:
  "process_uploaded_file L cts = Inl err \<Longrightarrow> upload L data cts = (upload_failed err, data)"
  by (simp add: upload_def)

lemma trigger_ids:
  "takeWhile (\<lambda>c. c \<noteq> CHR ''.'') ''upload-data.contents'' = ''upload-data''"
  "takeWhile (\<lambda>c. c \<noteq> CHR ''.'') ''tabs.active_tab'' = ''tabs''"
  "takeWhile (\<lambda>c. c \<noteq> CHR ''.'') ''filter-button.n_clicks'' = ''filter-button''"
  by simp_all

text \<open>The schema error: the dataset in the slot stays as it was.\<close>

lemma schema_error_keeps_dataset:
  assumes "read_csv L cts = Inr raw"
    and "find_campaign_column (apply_column_mapping raw) = Inl err"
  shows "update_content L data (request_of ''upload-data.contents'' (Some cts) tab) =
           (Inr (upload_failed err), data)"
proof -
  from assms have "process_uploaded_file L cts = Inl err"
    by (simp add: process_uploaded_file_def)
  then show ?thesis
    by (simp add: update_content_def request_of_def upload_fails_in_processing)
qed

lemma upload_nameless:
  "process_uploaded_file example_libs ''nameless'' =
     Inl (ValueError ''Could not find campaign name column in the CSV file'')"
  by code_simp

lemma minimal_data_upload_steps:
  "sorted_countries minimal_data = Inr [''United Kingdom'']"
  "create_product_summary_cards example_libs minimal_data = Inl (KeyError [''delivered_at''])"
  by code_simp+

text \<open>
  Claim C4 fails on the code at the second example. The upload without a campaign column
  is refused and leaves the dataset as it was. The upload with the three required columns
  and no \<^verbatim>\<open>delivered_at\<close> column is answered with the error message of a failed
  upload, and the slot holds the new dataset all the same: the assignment to the slot
  comes before the product cards are computed.
\<close>

theorem upload_error_after_store:
  "update_content example_libs (Some full_data)
     (request_of ''upload-data.contents'' (Some ''nameless'') ''data-table-tab'') =
     (Inr (upload_failed (ValueError ''Could not find campaign name column in the CSV file'')),
      Some full_data) \<and>
   update_content example_libs (Some full_data)
     (request_of ''upload-data.contents'' (Some ''minimal'') ''data-table-tab'') =
     (Inr (upload_failed (KeyError [''delivered_at''])), Some minimal_data) \<and>
   update_content example_libs None
     (request_of ''upload-data.contents'' (Some ''minimal'') ''data-table-tab'') =
     (Inr (upload_failed (KeyError [''delivered_at''])), Some minimal_data) \<and>
   tab_content (upload_failed (KeyError [''delivered_at''])) =
     Out (Div (''Error: '' @ [CHR 0x27] @ ''delivered_at'' @ [CHR 0x27])) \<and>
   Some minimal_data \<noteq> Some full_data"
proof -
  have u: "upload example_libs data ''minimal'' =
             (upload_failed (KeyError [''delivered_at'']), Some minimal_data)" for data
    by (simp add: upload_def upload_minimal minimal_data_upload_steps)
  have n: "upload example_libs data ''nameless'' =
             (upload_failed (ValueError ''Could not find campaign name column in the CSV file''), data)"
    for data
    by (simp add: upload_fails_in_processing upload_nameless)
  have d: "minimal_data \<noteq> full_data"
    by (simp add: minimal_data_def full_data_def)
  show ?thesis
    by (simp add: update_content_def request_of_def u n d upload_failed_def error_str_def)
qed


text \<open>The filter branch of the callback: any tab but the data table gets the campaign
  summary.\<close>

lemma filter_branch_ignores_tab:
  assumes "takeWhile (\<lambda>c. c \<noteq> CHR ''.'') p \<in>
             set [''filter-button'', ''filter-country'', ''filter-campaign-type'', ''filter-date'']"
    and "triggered req = p # ps"
    and "apply_filters d (filter_country req) (filter_campaign_type req)
           (start_date req) (end_date req) = Inr filtered_data"
    and "active_tab req \<noteq> ''data-table-tab''"
  shows "fst (update_content L (Some d) req) = show_content (create_summary_table filtered_data)"
  using assms by (auto simp: update_content_def Let_def)

lemma summary_table_full_data:
  "create_summary_table full_data =
     Inr (DataTable ''summary-table''
            [''campaign_name'', ''Dispatched'', ''Sent'', ''Delivered'', ''Read'',
             ''Button Clicks'', ''Link Clicks'']
            [[(''campaign_name'', Str ''Auto CPC Promo''), (''Dispatched'', Num 1), (''Sent'', Num 1),
              (''Delivered'', Num 1), (''Read'', Num 1), (''Button Clicks'', Num 1),
              (''Link Clicks'', Num 0)],
             [(''campaign_name'', Str ''Spring News''), (''Dispatched'', Num 1), (''Sent'', Num 1),
              (''Delivered'', Num 1), (''Read'', Num 0), (''Button Clicks'', Num 0),
              (''Link Clicks'', Num 0)],
             [(''campaign_name'', Str ''Winter Sale''), (''Dispatched'', Num 1), (''Sent'', Num 1),
              (''Delivered'', Num 0), (''Read'', Num 0), (''Button Clicks'', Num 0),
              (''Link Clicks'', Num 0)]])"
  by code_simp

lemma cost_table_full_data:
  "create_cost_analysis_table example_libs full_data =
     Inr (DataTable ''cost-table'' [''campaign_name'', ''Delivered Messages'', ''Cost (USD)'']
            [[(''campaign_name'', Str ''Spring News''), (''Delivered Messages'', Num 1),
              (''Cost (USD)'', Str ''$0.04'')],
             [(''campaign_name'', Str ''Winter Sale''), (''Delivered Messages'', Num 0),
              (''Cost (USD)'', Str ''$0.00'')],
             [(''campaign_name'', Str ''Total''), (''Delivered Messages'', Num 1),
              (''Cost (USD)'', Str ''$0.04'')]])"
  using cost_table_of_frame[OF cost_frame_full_data]
  by (simp add: cell_at_def format_cost_examples)

text \<open>
  Claim C7 fails on the code at the first example. With the Cost Analysis tab active, a
  click on the filter button returns the Campaign Summary of the filtered dataset; the
  Cost Analysis is what the same callback returns for that tab on a tab change.
\<close>

theorem filter_request_shows_summary:
  "apply_filters full_data None None None None = Inr full_data \<and>
   fst (update_content example_libs (Some full_data)
          (request_of ''filter-button.n_clicks'' None ''cost-analysis-tab'')) =
     show_content (create_summary_table full_data) \<and>
   fst (update_content example_libs (Some full_data)
          (request_of ''tabs.active_tab'' None ''cost-analysis-tab'')) =
     show_content (create_cost_analysis_table example_libs full_data) \<and>
   show_content (create_summary_table full_data) \<noteq>
     show_content (create_cost_analysis_table example_libs full_data)"
proof -
  have a: "apply_filters full_data None None None None = Inr full_data"
    by (simp add: apply_filters_def filter_isin_def)
  have 1: "fst (update_content example_libs (Some full_data)
          (request_of ''filter-button.n_clicks'' None ''cost-analysis-tab'')) =
     show_content (create_summary_table full_data)"
    by (rule filter_branch_ignores_tab[where p = "''filter-button.n_clicks''" and ps = "[]"])
       (simp_all add: request_of_def a)
  have 2: "fst (update_content example_libs (Some full_data)
          (request_of ''tabs.active_tab'' None ''cost-analysis-tab'')) =
     show_content (create_cost_analysis_table example_libs full_data)"
    by (simp add: update_content_def request_of_def)
  have 3: "show_content (create_summary_table full_data) \<noteq>
     show_content (create_cost_analysis_table example_libs full_data)"
    by (simp add: summary_table_full_data cost_table_full_data show_content_def content_only_def)
  from a 1 2 3 show ?thesis by simp
qed

text \<open>The Campaign Summary of a dataset that lacks one of the counted columns: the
  grouping raises.\<close>

lemma summary_table_missing_columns:
  assumes "has_column df ''campaign_name''"
    and "filter (\<lambda>c. \<not> has_column df c)
           [''dispatched_at'', ''sent_at'', ''delivered_at'', ''read_at'',
            ''button_clicks'', ''link_clicks''] = c # cs"
  shows "create_summary_table df = Inl (KeyError (c # cs))"
  using assms by (simp add: create_summary_table_def groupby_count_def)

text \<open>
  Claim C9 fails on the code at the second example. The dataset of the minimal upload has
  no \<^verbatim>\<open>sent_at\<close>, \<^verbatim>\<open>delivered_at\<close>, \<^verbatim>\<open>read_at\<close>, \<^verbatim>\<open>button_clicks\<close> and
  \<^verbatim>\<open>link_clicks\<close> columns. A change to the Campaign Summary tab leaves the callback
  with a \<^verbatim>\<open>KeyError\<close>; the report of the missing columns is what the unregistered
  callback would return.
\<close>

theorem tab_request_raises_on_missing_columns:
  "update_content example_libs (Some minimal_data)
     (request_of ''tabs.active_tab'' None ''campaign-summary-tab'') =
     (Inl (KeyError [''sent_at'', ''delivered_at'', ''read_at'', ''button_clicks'', ''link_clicks'']),
      Some minimal_data) \<and>
   handle_upload_and_tabs_tabs (Some minimal_data) ''campaign-summary-tab'' =
     Inr (Div ''Missing columns: sent_at, delivered_at, read_at, button_clicks, link_clicks'')"
proof -
  have h: "has_column minimal_data ''campaign_name''"
    and f: "filter (\<lambda>c. \<not> has_column minimal_data c)
           [''dispatched_at'', ''sent_at'', ''delivered_at'', ''read_at'',
            ''button_clicks'', ''link_clicks''] =
           [''sent_at'', ''delivered_at'', ''read_at'', ''button_clicks'', ''link_clicks'']"
    by code_simp+
  have s: "create_summary_table minimal_data =
        Inl (KeyError [''sent_at'', ''delivered_at'', ''read_at'', ''button_clicks'', ''link_clicks''])"
    by (rule summary_table_missing_columns[OF h f])
  have 1: "update_content example_libs (Some minimal_data)
     (request_of ''tabs.active_tab'' None ''campaign-summary-tab'') =
     (Inl (KeyError [''sent_at'', ''delivered_at'', ''read_at'', ''button_clicks'', ''link_clicks'']),
      Some minimal_data)"
    by (simp add: update_content_def request_of_def s show_content_def)
  have 2: "handle_upload_and_tabs_tabs (Some minimal_data) ''campaign-summary-tab'' =
     Inr (Div ''Missing columns: sent_at, delivered_at, read_at, button_clicks, link_clicks'')"
    by code_simp
  from 1 2 show ?thesis by simp
qed

end
